theory Spec2Isabelle
  imports Complex_Main "HOL-Library.Sublist"
begin

section \<open>Python values\<close>

text \<open>
  The service passes JSON-like Python values around: the metrics structure, the stored
  documents and the response bodies are dictionaries of them. A dictionary is an
  association list in insertion order. A Python \<open>float\<close> is modelled by the real number
  it denotes; every float the scorer produces is a quotient \<open>k / 100\<close> of small integers,
  which the model holds exactly. A Python \<open>str\<close> is a \<open>string\<close>, one element per
  character.
\<close>

datatype pyval =
    PNone
  | PBool bool
  | PInt int
  | PFloat real
  | PStr string
  | PList "pyval list"
  | PDict "(string \<times> pyval) list"
  | PObjectId string

type_synonym pydict = "(string \<times> pyval) list"

text \<open>\<open>d.get(k)\<close>: the value at \<open>k\<close>, or \<open>None\<close>.\<close>

definition dict_get :: "pydict \<Rightarrow> string \<Rightarrow> pyval" where
  "dict_get d k = (case map_of d k of None \<Rightarrow> PNone | Some v \<Rightarrow> v)"

text \<open>\<open>d.get(k, default)\<close>.\<close>

definition dict_get_default :: "pydict \<Rightarrow> string \<Rightarrow> pyval \<Rightarrow> pyval" where
  "dict_get_default d k dflt = (case map_of d k of None \<Rightarrow> dflt | Some v \<Rightarrow> v)"

text \<open>\<open>d[k] = v\<close>: an existing key keeps its position, a new key goes to the end.\<close>

fun dict_set :: "string \<Rightarrow> pyval \<Rightarrow> pydict \<Rightarrow> pydict" where
  "dict_set k v [] = [(k, v)]"
| "dict_set k v ((k', v') # d) =
     (if k' = k then (k, v) # d else (k', v') # dict_set k v d)"

text \<open>\<open>{**a, **b}\<close>, and the effect of \<open>$set\<close>: the entries of \<open>b\<close> are written into \<open>a\<close> in order.\<close>

fun dict_merge :: "pydict \<Rightarrow> pydict \<Rightarrow> pydict" where
  "dict_merge a [] = a"
| "dict_merge a ((k, v) # b) = dict_merge (dict_set k v a) b"

text \<open>Truth value testing, as \<open>not x\<close>, \<open>x or y\<close> and \<open>if x\<close> do it.\<close>

fun truthy :: "pyval \<Rightarrow> bool" where
  "truthy PNone = False"
| "truthy (PBool b) = b"
| "truthy (PInt i) = (i \<noteq> 0)"
| "truthy (PFloat x) = (x \<noteq> 0)"
| "truthy (PStr s) = (s \<noteq> [])"
| "truthy (PList xs) = (xs \<noteq> [])"
| "truthy (PDict d) = (d \<noteq> [])"
| "truthy (PObjectId i) = True"

definition py_or :: "pyval \<Rightarrow> pyval \<Rightarrow> pyval" where
  "py_or a b = (if truthy a then a else b)"

text \<open>The value at \<open>m[group][key]\<close> of a nested dictionary, when both levels exist.\<close>

definition metric :: "pyval \<Rightarrow> string \<Rightarrow> string \<Rightarrow> pyval option" where
  "metric m g k =
     (case m of
        PDict d \<Rightarrow> (case map_of d g of Some (PDict d') \<Rightarrow> map_of d' k | _ \<Rightarrow> None)
      | _ \<Rightarrow> None)"

section \<open>The scorer: \<open>dummy_deepeval\<close>\<close>

text \<open>
  \<open>round(x, ndigits)\<close> on a float: the nearest multiple of \<open>10 ^ -ndigits\<close>, a tie going
  to the even one.
\<close>

definition py_round :: "real \<Rightarrow> nat \<Rightarrow> real" where
  "py_round x ndigits =
     (let s = x * 10 ^ ndigits;
          f = \<lfloor>s\<rfloor>;
          d = s - of_int f
      in of_int (if d < 1 / 2 then f else if 1 / 2 < d then f + 1
                 else if even f then f else f + 1) / 10 ^ ndigits)"

definition norm_py :: "real \<Rightarrow> real" where
  "norm_py v = py_round (max 0 (min 1 v)) 2"

definition dummy_deepeval :: "string \<Rightarrow> string option \<Rightarrow> pyval" where
  "dummy_deepeval agent_card chat_logs =
     (let base = max 1 (int (length agent_card));
          chat_factor =
            (case chat_logs of
               Some s \<Rightarrow> (if s \<noteq> [] then int (length s) else 0)
             | None \<Rightarrow> 0) mod 1000
      in PDict
        [(''mcp_compliance'', PDict
           [(''spec_alignment'', PFloat (norm_py (of_int (base mod 100) / 100))),
            (''tools_schema_valid'', PFloat (norm_py (of_int ((base div 3) mod 100) / 100))),
            (''errors'', PList [])]),
         (''safety'', PDict
           [(''toxicity'', PFloat (norm_py (of_int ((base + chat_factor) mod 100) / 100))),
            (''compliance'',
               PFloat (norm_py (of_int ((base div 7 + chat_factor div 5) mod 100) / 100))),
            (''harmfulness'', PFloat (norm_py (of_int ((base div 11) mod 100) / 100)))]),
         (''chatbot'', PDict
           [(''relevance'',
               PFloat (norm_py (of_int ((base div 13 + chat_factor div 3) mod 100) / 100))),
            (''helpfulness'', PFloat (norm_py (of_int ((base div 5) mod 100) / 100))),
            (''factuality'', PFloat (norm_py (of_int ((base div 9) mod 100) / 100))),
            (''latency'', PInt (100 + base mod 50))])])"

subsection \<open>The scorer as the specification words it\<close>

record McpCompliance =
  specAlignment :: real
  toolsSchemaValid :: real
  errors :: "pyval list"

record Safety =
  toxicity :: real
  compliance :: real
  harmfulness :: real

record Chatbot =
  relevance :: real
  helpfulness :: real
  factuality :: real
  latency :: int

record Metrics =
  mcpCompliance :: McpCompliance
  safety :: Safety
  chatbot :: Chatbot

definition clamp :: "real \<Rightarrow> real \<Rightarrow> real \<Rightarrow> real" where
  "clamp v lo hi = (if v < lo then lo else if hi < v then hi else v)"

definition spec_norm :: "real \<Rightarrow> real" where
  "spec_norm v = of_int (round (clamp v 0 1 * 100)) / 100"

definition score :: "string \<Rightarrow> string option \<Rightarrow> Metrics" where
  "score agentCardText chatText =
     (let base = max 1 (int (length agentCardText));
          chatFactor = (case chatText of Some t \<Rightarrow> int (length t) mod 1000 | None \<Rightarrow> 0)
      in \<lparr> mcpCompliance =
             \<lparr> specAlignment = spec_norm (of_int (base mod 100) / 100),
               toolsSchemaValid = spec_norm (of_int ((base div 3) mod 100) / 100),
               errors = [] \<rparr>,
           safety =
             \<lparr> toxicity = spec_norm (of_int ((base + chatFactor) mod 100) / 100),
               compliance =
                 spec_norm (of_int ((base div 7 + chatFactor div 5) mod 100) / 100),
               harmfulness = spec_norm (of_int ((base div 11) mod 100) / 100) \<rparr>,
           chatbot =
             \<lparr> relevance =
                 spec_norm (of_int ((base div 13 + chatFactor div 3) mod 100) / 100),
               helpfulness = spec_norm (of_int ((base div 5) mod 100) / 100),
               factuality = spec_norm (of_int ((base div 9) mod 100) / 100),
               latency = 100 + base mod 50 \<rparr> \<rparr>)"

text \<open>The dictionary the service stores and returns for a \<open>Metrics\<close> value.\<close>

definition metrics_dict :: "Metrics \<Rightarrow> pyval" where
  "metrics_dict m =
     PDict
       [(''mcp_compliance'', PDict
          [(''spec_alignment'', PFloat (specAlignment (mcpCompliance m))),
           (''tools_schema_valid'', PFloat (toolsSchemaValid (mcpCompliance m))),
           (''errors'', PList (errors (mcpCompliance m)))]),
        (''safety'', PDict
          [(''toxicity'', PFloat (toxicity (safety m))),
           (''compliance'', PFloat (compliance (safety m))),
           (''harmfulness'', PFloat (harmfulness (safety m)))]),
        (''chatbot'', PDict
          [(''relevance'', PFloat (relevance (chatbot m))),
           (''helpfulness'', PFloat (helpfulness (chatbot m))),
           (''factuality'', PFloat (factuality (chatbot m))),
           (''latency'', PInt (latency (chatbot m)))])]"

text \<open>A score of the normalised kind: a float in \<open>[0, 1]\<close> with at most two decimals.\<close>

definition normalized :: "pyval option \<Rightarrow> bool" where
  "normalized v =
     (case v of
        Some (PFloat x) \<Rightarrow> 0 \<le> x \<and> x \<le> 1 \<and> of_int \<lfloor>x * 100\<rfloor> = x * 100
      | _ \<Rightarrow> False)"

section \<open>Exceptions and the outside world\<close>

text \<open>
  \<open>HTTPException status detail\<close> is FastAPI's exception; \<open>Exception msg\<close> is any other
  exception, with \<open>msg\<close> what \<open>str(e)\<close> gives.
\<close>

datatype exn = HTTPException nat string | Exception string

definition then_do :: "exn + 'a \<Rightarrow> ('a \<Rightarrow> exn + 'b) \<Rightarrow> exn + 'b" where
  "then_do x f = (case x of Inl e \<Rightarrow> Inl e | Inr a \<Rightarrow> f a)"

text \<open>
  What one \<open>requests.get\<close> followed by \<open>raise_for_status\<close> comes to: the body text of a
  2xx reply, or an exception (network error, timeout, other status) with its message.
\<close>

datatype reply = Body string | Failure string

datatype event = Get string int | Sleep real

text \<open>
  The world outside the process. \<open>net\<close> decides the reply to the \<open>n\<close>-th request sent;
  \<open>trace\<close> records the requests and the sleeps in order. \<open>db\<close> is the module-level
  handle: \<open>None\<close> when the store is not configured, else the \<open>evaluation\<close> collection.

  Modelled from the spec: the module \<open>database\<close> that provides \<open>db\<close> is not among the
  sources. The store is an identifier-keyed collection of documents with insert,
  update and find-by-id; it assigns the identifier on creation. An operation either
  takes effect or raises and leaves the collection as it was: \<open>db_fault\<close> decides
  whether the \<open>n\<close>-th operation raises and with which message, \<open>db_gen\<close> which
  identifier the \<open>n\<close>-th operation generates.
\<close>

record world =
  net :: "nat \<Rightarrow> string \<Rightarrow> reply"
  sent :: nat
  trace :: "event list"
  db :: "(string \<rightharpoonup> pydict) option"
  db_ops :: nat
  db_fault :: "nat \<Rightarrow> string option"
  db_gen :: "nat \<Rightarrow> string"

definition requests_get :: "string \<Rightarrow> int \<Rightarrow> world \<Rightarrow> reply \<times> world" where
  "requests_get url timeout w =
     (net w (sent w) url, w\<lparr>sent := sent w + 1, trace := trace w @ [Get url timeout]\<rparr>)"

text \<open>
  \<open>time.sleep(secs)\<close> first converts the length to a count of nanoseconds in a signed
  64-bit integer, rounding away from zero, and raises \<open>OverflowError\<close> when the count
  does not fit (a length of about \<open>9.2e9\<close> seconds or more); it then raises
  \<open>ValueError\<close> on a negative length.
\<close>

definition round_away :: "real \<Rightarrow> int" where
  "round_away x = (if 0 \<le> x then \<lceil>x\<rceil> else \<lfloor>x\<rfloor>)"

definition time_sleep :: "real \<Rightarrow> world \<Rightarrow> exn + world" where
  "time_sleep secs w =
     (if \<not> (- (2 ^ 63) \<le> round_away (secs * 10 ^ 9) \<and> round_away (secs * 10 ^ 9) < 2 ^ 63)
      then Inl (Exception ''timestamp too large to convert to C _PyTime_t'')
      else if secs < 0 then Inl (Exception ''sleep length must be non-negative'')
      else Inr (w\<lparr>trace := trace w @ [Sleep secs]\<rparr>))"

section \<open>The fetcher: \<open>fetch_with_retries\<close>\<close>

text \<open>
  The sleep length \<open>backoff * (2 ** attempt)\<close>. The integer power is converted to a
  float for the product, which raises \<open>OverflowError\<close> from \<open>2 ** 1024\<close> on; below
  that the product is taken as a real number.
\<close>

definition sleep_length :: "real \<Rightarrow> int \<Rightarrow> exn + real" where
  "sleep_length backoff attempt =
     (if 1024 \<le> attempt then Inl (Exception ''int too large to convert to float'')
      else Inr (backoff * 2 ^ nat attempt))"

text \<open>
  \<open>sleep_accepted backoff j\<close>: the backoff sleep after failed attempt \<open>j\<close> goes through.
\<close>

definition sleep_accepted :: "real \<Rightarrow> nat \<Rightarrow> bool" where
  "sleep_accepted backoff j =
     (j < 1024 \<and> 0 \<le> backoff \<and> round_away (backoff * 2 ^ j * 10 ^ 9) < 2 ^ 63)"

text \<open>
  The \<open>for attempt in range(max_retries)\<close> loop, entered at \<open>attempt\<close> with the
  \<open>last_err\<close> seen so far; falling out of the loop raises the 502. An exception of
  the backoff sleep is raised inside the \<open>except\<close> block and leaves the function.
\<close>

function fetch_attempts ::
  "string \<Rightarrow> int \<Rightarrow> real \<Rightarrow> int \<Rightarrow> int \<Rightarrow> string option \<Rightarrow> world
     \<Rightarrow> (exn + string) \<times> world" where
  "fetch_attempts url max_retries backoff timeout attempt last_err w =
     (if attempt < max_retries then
        (case requests_get url timeout w of
           (Body text, w1) \<Rightarrow> (Inr text, w1)
         | (Failure e, w1) \<Rightarrow>
             (if attempt < max_retries - 1 then
                (case sleep_length backoff attempt of
                   Inl err \<Rightarrow> (Inl err, w1)
                 | Inr secs \<Rightarrow>
                     (case time_sleep secs w1 of
                        Inl err \<Rightarrow> (Inl err, w1)
                      | Inr w2 \<Rightarrow>
                          fetch_attempts url max_retries backoff timeout (attempt + 1)
                            (Some e) w2))
              else fetch_attempts url max_retries backoff timeout (attempt + 1) (Some e) w1))
      else
        (Inl (HTTPException 502
           (''Failed to fetch '' @ url @ '': ''
              @ (case last_err of None \<Rightarrow> ''None'' | Some e \<Rightarrow> e))), w))"
  by pat_completeness auto
termination
  by (relation "measure (\<lambda>(url, max_retries, backoff, timeout, attempt, last_err, w).
        nat (max_retries - attempt))") auto

definition fetch_with_retries ::
  "string \<Rightarrow> int \<Rightarrow> real \<Rightarrow> int \<Rightarrow> world \<Rightarrow> (exn + string) \<times> world" where
  "fetch_with_retries url max_retries backoff timeout w =
     fetch_attempts url max_retries backoff timeout 0 None w"

text \<open>The call with the default arguments, as \<open>evaluate\<close> makes it.\<close>

definition fetch_default :: "string \<Rightarrow> world \<Rightarrow> (exn + string) \<times> world" where
  "fetch_default url w = fetch_with_retries url 3 0.8 10 w"

text \<open>
  The trace that \<open>k\<close> failed attempts starting at attempt index \<open>a\<close> leave when each is
  followed by its backoff sleep.
\<close>

definition retries :: "string \<Rightarrow> int \<Rightarrow> real \<Rightarrow> nat \<Rightarrow> nat \<Rightarrow> event list" where
  "retries url timeout backoff a k =
     concat (map (\<lambda>j. [Get url timeout, Sleep (backoff * 2 ^ j)]) [a..<a + k])"

section \<open>The reporter: \<open>render_html_report\<close>\<close>

fun type_name :: "pyval \<Rightarrow> string" where
  "type_name PNone = ''NoneType''"
| "type_name (PBool b) = ''bool''"
| "type_name (PInt i) = ''int''"
| "type_name (PFloat x) = ''float''"
| "type_name (PStr s) = ''str''"
| "type_name (PList xs) = ''list''"
| "type_name (PDict d) = ''dict''"
| "type_name (PObjectId i) = ''ObjectId''"

definition attribute_error :: "pyval \<Rightarrow> string \<Rightarrow> exn" where
  "attribute_error obj attr =
     Exception ([CHR 0x27] @ type_name obj @ [CHR 0x27] @ '' object has no attribute ''
                @ [CHR 0x27] @ attr @ [CHR 0x27])"

text \<open>\<open>obj.get(k, default)\<close> on any value: only a dictionary has the method.\<close>

definition py_get :: "pyval \<Rightarrow> string \<Rightarrow> pyval \<Rightarrow> exn + pyval" where
  "py_get obj k dflt =
     (case obj of
        PDict d \<Rightarrow> Inr (dict_get_default d k dflt)
      | _ \<Rightarrow> Inl (attribute_error obj ''get''))"

text \<open>
  \<open>str(v)\<close>, as a replacement field of an f-string applies it. What Python prints
  for a number or a container is the parameter \<open>repr\<close>.
\<close>

fun py_str :: "(pyval \<Rightarrow> string) \<Rightarrow> pyval \<Rightarrow> string" where
  "py_str repr PNone = ''None''"
| "py_str repr (PBool b) = (if b then ''True'' else ''False'')"
| "py_str repr (PStr s) = s"
| "py_str repr (PObjectId i) = i"
| "py_str repr v = repr v"

text \<open>The character U+2014, in UTF-8.\<close>

definition em_dash :: string where
  "em_dash = [CHR 0xE2, CHR 0x80, CHR 0x94]"

definition row :: "(pyval \<Rightarrow> string) \<Rightarrow> string \<Rightarrow> pyval \<Rightarrow> string" where
  "row repr label v =
     ''<tr><td style='padding:8px;font-weight:600'>'' @ label
     @ ''</td><td style='padding:8px'>'' @ py_str repr v @ ''</td></tr>''"

text \<open>The literal text of the template, between its replacement fields.\<close>

definition html_head :: string where
  "html_head =
     ''\<newline>''
     @ ''    <html>\<newline>''
     @ ''      <head>\<newline>''
     @ ''        <meta charset='utf-8' />\<newline>''
     @ ''        <meta name='viewport' content='width=device-width, initial-scale=1' />\<newline>''
     @ ''        <title>Agent Evaluator Report</title>\<newline>''
     @ ''        <style>\<newline>''
     @ ''          body { font-family: ui-sans-serif, system-ui, -apple-system; padding: 24px; background: #0b1020; color: #e6f0ff; }\<newline>''
     @ ''          .card { background: #0f172a; border: 1px solid #1f2a44; border-radius: 12px; padding: 20px; max-width: 960px; margin: 0 auto; }\<newline>''
     @ ''          h1 { font-size: 24px; margin: 0 0 12px; }\<newline>''
     @ ''          h2 { font-size: 18px; margin: 20px 0 8px; color: #9fb3ff; }\<newline>''
     @ ''          table { width: 100%; border-collapse: collapse; margin-top: 8px; }\<newline>''
     @ ''          tr:nth-child(even) td { background: #0b132b; }\<newline>''
     @ ''          td { border-top: 1px solid #1f2a44; }\<newline>''
     @ ''          .muted { color: #9fb3ff; }\<newline>''
     @ ''        </style>\<newline>''
     @ ''      </head>\<newline>''
     @ ''      <body>\<newline>''
     @ ''        <div class='card'>\<newline>''
     @ ''          <h1>Agent Evaluator Report</h1>\<newline>''
     @ ''          <div class='muted'>Status: ''"

definition html_agent_card :: string where
  "html_agent_card =
     ''</div>\<newline>''
     @ ''          <div class='muted'>Agent Card: ''"

definition html_chat_logs :: string where
  "html_chat_logs =
     ''</div>\<newline>''
     @ ''          <div class='muted'>Chat Logs: ''"

definition html_mcp :: string where
  "html_mcp =
     ''</div>\<newline>''
     @ ''\<newline>''
     @ ''          <h2>MCP Compliance</h2>\<newline>''
     @ ''          <table>\<newline>''
     @ ''            ''"

definition html_next_row :: string where
  "html_next_row =
     ''\<newline>''
     @ ''            ''"

definition html_safety :: string where
  "html_safety =
     ''\<newline>''
     @ ''          </table>\<newline>''
     @ ''\<newline>''
     @ ''          <h2>Safety</h2>\<newline>''
     @ ''          <table>\<newline>''
     @ ''            ''"

definition html_chatbot :: string where
  "html_chatbot =
     ''\<newline>''
     @ ''          </table>\<newline>''
     @ ''\<newline>''
     @ ''          <h2>Chatbot Metrics</h2>\<newline>''
     @ ''          <table>\<newline>''
     @ ''            ''"

definition html_tail :: string where
  "html_tail =
     ''\<newline>''
     @ ''          </table>\<newline>''
     @ ''        </div>\<newline>''
     @ ''      </body>\<newline>''
     @ ''    </html>\<newline>''
     @ ''    ''"

definition render_html_report :: "(pyval \<Rightarrow> string) \<Rightarrow> pydict \<Rightarrow> exn + string" where
  "render_html_report repr evaluation =
     (let m = dict_get_default evaluation ''metrics'' (PDict []) in
      then_do (py_get m ''safety'' (PDict [])) (\<lambda>safety.
      then_do (py_get m ''mcp_compliance'' (PDict [])) (\<lambda>mcp.
      then_do (py_get m ''chatbot'' (PDict [])) (\<lambda>bot.
      then_do (py_get mcp ''spec_alignment'' (PStr ''n/a'')) (\<lambda>spec_alignment.
      then_do (py_get mcp ''tools_schema_valid'' (PStr ''n/a'')) (\<lambda>tools_schema_valid.
      then_do (py_get safety ''toxicity'' (PStr ''n/a'')) (\<lambda>toxicity.
      then_do (py_get safety ''compliance'' (PStr ''n/a'')) (\<lambda>compliance.
      then_do (py_get safety ''harmfulness'' (PStr ''n/a'')) (\<lambda>harmfulness.
      then_do (py_get bot ''relevance'' (PStr ''n/a'')) (\<lambda>relevance.
      then_do (py_get bot ''helpfulness'' (PStr ''n/a'')) (\<lambda>helpfulness.
      then_do (py_get bot ''factuality'' (PStr ''n/a'')) (\<lambda>factuality.
      then_do (py_get bot ''latency'' (PStr ''n/a'')) (\<lambda>latency.
      Inr (html_head @ py_str repr (dict_get evaluation ''status'')
           @ html_agent_card @ py_str repr (dict_get evaluation ''agent_card_url'')
           @ html_chat_logs
           @ py_str repr (py_or (dict_get evaluation ''chat_url'') (PStr em_dash))
           @ html_mcp @ row repr ''Spec Alignment'' spec_alignment
           @ html_next_row @ row repr ''Tools Schema Valid'' tools_schema_valid
           @ html_safety @ row repr ''Toxicity'' toxicity
           @ html_next_row @ row repr ''Compliance'' compliance
           @ html_next_row @ row repr ''Harmfulness'' harmfulness
           @ html_chatbot @ row repr ''Relevance'' relevance
           @ html_next_row @ row repr ''Helpfulness'' helpfulness
           @ html_next_row @ row repr ''Factuality'' factuality
           @ html_next_row @ row repr ''Latency (ms)'' latency
           @ html_tail))))))))))))))"

text \<open>
  The records the reporter is total on: a \<open>metrics\<close> entry, when there is one, is a
  dictionary, and so is each of its three groups that is present.
\<close>

definition group_ok :: "pydict \<Rightarrow> string \<Rightarrow> bool" where
  "group_ok m g = (case map_of m g of None \<Rightarrow> True | Some (PDict d) \<Rightarrow> True | Some _ \<Rightarrow> False)"

definition renderable :: "pydict \<Rightarrow> bool" where
  "renderable evaluation =
     (case map_of evaluation ''metrics'' of
        None \<Rightarrow> True
      | Some (PDict m) \<Rightarrow>
          group_ok m ''safety'' \<and> group_ok m ''mcp_compliance'' \<and> group_ok m ''chatbot''
      | Some _ \<Rightarrow> False)"

text \<open>The dictionary of group \<open>g\<close> of the record's metrics, empty when there is none.\<close>

definition group_of :: "pydict \<Rightarrow> string \<Rightarrow> pydict" where
  "group_of evaluation g =
     (case map_of evaluation ''metrics'' of
        Some (PDict m) \<Rightarrow> (case map_of m g of Some (PDict d) \<Rightarrow> d | _ \<Rightarrow> [])
      | _ \<Rightarrow> [])"

section \<open>The store\<close>

text \<open>
  Modelled from the spec: the operations of the collection behind \<open>db\<close>, which the
  absent module \<open>database\<close> connects. A stored document is kept under its identifier
  without the \<open>_id\<close> entry; \<open>find_one\<close> returns it with \<open>_id\<close> in front. Indexing a
  \<open>db\<close> that is \<open>None\<close> raises \<open>TypeError\<close>.
\<close>

definition not_subscriptable :: exn where
  "not_subscriptable =
     Exception ([CHR 0x27] @ ''NoneType'' @ [CHR 0x27] @ '' object is not subscriptable'')"

text \<open>
  \<open>insert_one(doc)\<close> stores the document under a generated identifier and writes the
  identifier into \<open>doc\<close> itself; the result is the identifier and \<open>doc\<close> as it then is.
\<close>

definition insert_one :: "pydict \<Rightarrow> world \<Rightarrow> (exn + string \<times> pydict) \<times> world" where
  "insert_one doc w =
     (case db w of
        None \<Rightarrow> (Inl not_subscriptable, w)
      | Some docs \<Rightarrow>
          (let w1 = w\<lparr>db_ops := db_ops w + 1\<rparr> in
           case db_fault w (db_ops w) of
             Some msg \<Rightarrow> (Inl (Exception msg), w1)
           | None \<Rightarrow>
               (let oid = db_gen w (db_ops w) in
                if docs oid \<noteq> None then (Inl (Exception ''duplicate key error''), w1)
                else (Inr (oid, dict_set ''_id'' (PObjectId oid) doc),
                      w1\<lparr>db := Some (docs(oid \<mapsto> doc))\<rparr>))))"

text \<open>\<open>update_one({"_id": oid}, {"$set": changes})\<close>; no document under \<open>oid\<close>: no change.\<close>

definition update_one :: "string \<Rightarrow> pydict \<Rightarrow> world \<Rightarrow> (exn + unit) \<times> world" where
  "update_one oid changes w =
     (case db w of
        None \<Rightarrow> (Inl not_subscriptable, w)
      | Some docs \<Rightarrow>
          (let w1 = w\<lparr>db_ops := db_ops w + 1\<rparr> in
           case db_fault w (db_ops w) of
             Some msg \<Rightarrow> (Inl (Exception msg), w1)
           | None \<Rightarrow>
               (case docs oid of
                  None \<Rightarrow> (Inr (), w1)
                | Some d \<Rightarrow> (Inr (), w1\<lparr>db := Some (docs(oid \<mapsto> dict_merge d changes))\<rparr>))))"

definition find_one :: "string \<Rightarrow> world \<Rightarrow> (exn + pydict option) \<times> world" where
  "find_one oid w =
     (case db w of
        None \<Rightarrow> (Inl not_subscriptable, w)
      | Some docs \<Rightarrow>
          (let w1 = w\<lparr>db_ops := db_ops w + 1\<rparr> in
           case db_fault w (db_ops w) of
             Some msg \<Rightarrow> (Inl (Exception msg), w1)
           | None \<Rightarrow>
               (case docs oid of
                  None \<Rightarrow> (Inr None, w1)
                | Some d \<Rightarrow> (Inr (Some ((''_id'', PObjectId oid) # d)), w1))))"

text \<open>
  \<open>ObjectId(s)\<close> of \<open>bson\<close>: a string of 24 characters is handed to \<open>bytes.fromhex\<close>,
  which reads pairs of hexadecimal digits and skips ASCII whitespace between the
  pairs; any other string raises. The identifier is kept as \<open>str\<close> prints it, its
  bytes in lower-case hexadecimal.
\<close>

definition hex_digit :: "char \<Rightarrow> bool" where
  "hex_digit c = (c \<in> set ''0123456789abcdefABCDEF'')"

definition hex_lower :: "char \<Rightarrow> char" where
  "hex_lower c =
     (if c = CHR ''A'' then CHR ''a'' else if c = CHR ''B'' then CHR ''b''
      else if c = CHR ''C'' then CHR ''c'' else if c = CHR ''D'' then CHR ''d''
      else if c = CHR ''E'' then CHR ''e'' else if c = CHR ''F'' then CHR ''f'' else c)"

definition ascii_space :: "char \<Rightarrow> bool" where
  "ascii_space c = (c \<in> set [CHR '' '', CHR 0x09, CHR 0x0A, CHR 0x0B, CHR 0x0C, CHR 0x0D])"

fun fromhex :: "string \<Rightarrow> string option" where
  "fromhex [] = Some []"
| "fromhex [c] = (if ascii_space c then Some [] else None)"
| "fromhex (c # d # cs) =
     (if ascii_space c then fromhex (d # cs)
      else if hex_digit c \<and> hex_digit d then
        (case fromhex cs of None \<Rightarrow> None | Some r \<Rightarrow> Some (hex_lower c # hex_lower d # r))
      else None)"

definition ObjectId :: "string \<Rightarrow> string option" where
  "ObjectId s = (if length s = 24 then fromhex s else None)"

section \<open>The schemas\<close>

text \<open>
  A validated request. The fields hold what \<open>str\<close> gives for the validated URLs;
  a URL object is always true, so \<open>req.chat_url\<close> is false exactly when it is \<open>None\<close>.
\<close>

record EvaluationRequest =
  agent_card_url :: string
  chat_url :: "string option"

text \<open>\<open>Evaluation(agent_card_url=a, chat_url=c, status=s).model_dump()\<close>.\<close>

definition Evaluation_model_dump :: "string \<Rightarrow> string option \<Rightarrow> string \<Rightarrow> pydict" where
  "Evaluation_model_dump a c s =
     [(''agent_card_url'', PStr a),
      (''chat_url'', (case c of None \<Rightarrow> PNone | Some u \<Rightarrow> PStr u)),
      (''status'', PStr s),
      (''metrics'', PNone),
      (''html_report'', PNone),
      (''error'', PNone)]"








section \<open>The service\<close>

text \<open>
  The first two statements of the \<open>try\<close> block of \<open>evaluate\<close>: the agent card is
  fetched, then the chat logs when the request has a chat URL.
\<close>

definition fetch_inputs ::
  "EvaluationRequest \<Rightarrow> world \<Rightarrow> (exn + string \<times> string option) \<times> world" where
  "fetch_inputs req w =
     (case fetch_default (agent_card_url req) w of
        (Inl e, w1) \<Rightarrow> (Inl e, w1)
      | (Inr agent_card_text, w1) \<Rightarrow>
          (case chat_url req of
             None \<Rightarrow> (Inr (agent_card_text, None), w1)
           | Some u \<Rightarrow>
               (case fetch_default u w1 of
                  (Inl e, w2) \<Rightarrow> (Inl e, w2)
                | (Inr chat_text, w2) \<Rightarrow> (Inr (agent_card_text, Some chat_text), w2))))"

text \<open>The \<open>temp_doc\<close> that \<open>evaluate\<close> builds for the reporter.\<close>

definition temp_doc :: "EvaluationRequest \<Rightarrow> pydict \<Rightarrow> pydict \<Rightarrow> pyval \<Rightarrow> pydict" where
  "temp_doc req doc updated metrics =
     (let t = dict_merge doc updated;
          t = dict_set ''metrics'' metrics t;
          t = dict_set ''status'' (PStr ''completed'') t;
          t = dict_set ''agent_card_url'' (PStr (agent_card_url req)) t
      in dict_set ''chat_url'' (case chat_url req of None \<Rightarrow> PNone | Some u \<Rightarrow> PStr u) t)"

text \<open>The body of the \<open>try\<close> block of \<open>evaluate\<close>.\<close>

definition evaluate_try ::
  "(pyval \<Rightarrow> string) \<Rightarrow> EvaluationRequest \<Rightarrow> pydict \<Rightarrow> string \<Rightarrow> world
     \<Rightarrow> (exn + pyval) \<times> world" where
  "evaluate_try repr req doc inserted_id w =
     (case fetch_inputs req w of
        (Inl e, w2) \<Rightarrow> (Inl e, w2)
      | (Inr (agent_card_text, chat_text), w2) \<Rightarrow>
          (let metrics = dummy_deepeval agent_card_text chat_text;
               updated = [(''status'', PStr ''completed''), (''metrics'', metrics)]
           in case render_html_report repr (temp_doc req doc updated metrics) of
                Inl e \<Rightarrow> (Inl e, w2)
              | Inr html \<Rightarrow>
                  (let updated = dict_set ''html_report'' (PStr html) updated in
                   case update_one inserted_id updated w2 of
                     (Inl e, w3) \<Rightarrow> (Inl e, w3)
                   | (Inr u, w3) \<Rightarrow>
                       (Inr (PDict [(''id'', PStr inserted_id),
                                    (''status'', PStr ''completed''),
                                    (''metrics'', metrics)]), w3))))"

definition evaluate ::
  "(pyval \<Rightarrow> string) \<Rightarrow> EvaluationRequest \<Rightarrow> world \<Rightarrow> (exn + pyval) \<times> world" where
  "evaluate repr req w =
     (if db w = None then (Inl (HTTPException 500 ''Database not configured''), w)
      else
        (let doc = Evaluation_model_dump (agent_card_url req) (chat_url req) ''running'' in
         case insert_one doc w of
           (Inl e, w1) \<Rightarrow> (Inl e, w1)
         | (Inr (inserted_id, doc), w1) \<Rightarrow>
             (case evaluate_try repr req doc inserted_id w1 of
                (Inr r, w2) \<Rightarrow> (Inr r, w2)
              | (Inl (HTTPException status detail), w2) \<Rightarrow>
                  (case update_one inserted_id [(''status'', PStr ''failed'')] w2 of
                     (Inl e', w3) \<Rightarrow> (Inl e', w3)
                   | (Inr u, w3) \<Rightarrow> (Inl (HTTPException status detail), w3))
              | (Inl (Exception e), w2) \<Rightarrow>
                  (case update_one inserted_id
                          [(''status'', PStr ''failed''), (''error'', PStr e)] w2 of
                     (Inl e', w3) \<Rightarrow> (Inl e', w3)
                   | (Inr u, w3) \<Rightarrow>
                       (Inl (HTTPException 500 (''Evaluation failed: '' @ e)), w3)))))"



datatype http_response = HTMLResponse string nat

text \<open>\<open>HTMLResponse(content=..., status_code=...)\<close> encodes its content, a string.\<close>

definition html_response :: "pyval \<Rightarrow> nat \<Rightarrow> exn + http_response" where
  "html_response content status_code =
     (case content of
        PStr s \<Rightarrow> Inr (HTMLResponse s status_code)
      | PNone \<Rightarrow> Inr (HTMLResponse [] status_code)
      | v \<Rightarrow> Inl (attribute_error v ''encode''))"

definition get_evaluation_report ::
  "(pyval \<Rightarrow> string) \<Rightarrow> string \<Rightarrow> world \<Rightarrow> (exn + http_response) \<times> world" where
  "get_evaluation_report repr evaluation_id w =
     (if db w = None then (Inl (HTTPException 500 ''Database not configured''), w)
      else
        (case ObjectId evaluation_id of
           None \<Rightarrow> (Inl (HTTPException 400 ''Invalid evaluation id''), w)
         | Some oid \<Rightarrow>
             (case find_one oid w of
                (Inl e, w1) \<Rightarrow> (Inl e, w1)
              | (Inr found, w1) \<Rightarrow>
                  (case found of
                     None \<Rightarrow> (Inl (HTTPException 404 ''Evaluation not found''), w1)
                   | Some doc \<Rightarrow>
                       (if doc = [] then (Inl (HTTPException 404 ''Evaluation not found''), w1)
                        else
                          (let html = dict_get doc ''html_report'' in
                           if \<not> truthy html then
                             (case render_html_report repr
                                     [(''status'', dict_get doc ''status''),
                                      (''agent_card_url'', dict_get doc ''agent_card_url''),
                                      (''chat_url'', dict_get doc ''chat_url''),
                                      (''metrics'', py_or (dict_get doc ''metrics'') (PDict []))] of
                                Inl e \<Rightarrow> (Inl e, w1)
                              | Inr html \<Rightarrow> (html_response (PStr html) 200, w1))
                           else (html_response html 200, w1)))))))"

text \<open>
  Creating a record. \<open>new_id w\<close> is the identifier the store will assign next;
  \<open>can_create docs w\<close> says that the collection is \<open>docs\<close> and that the insert of
  \<open>evaluate\<close> will go through; \<open>created req docs w\<close> is the world after it.
\<close>

definition new_id :: "world \<Rightarrow> string" where
  "new_id w = db_gen w (db_ops w)"

definition can_create :: "(string \<rightharpoonup> pydict) \<Rightarrow> world \<Rightarrow> bool" where
  "can_create docs w =
     (db w = Some docs \<and> db_fault w (db_ops w) = None \<and> docs (new_id w) = None)"

definition created :: "EvaluationRequest \<Rightarrow> (string \<rightharpoonup> pydict) \<Rightarrow> world \<Rightarrow> world" where
  "created req docs w =
     w\<lparr>db_ops := db_ops w + 1,
       db := Some (docs(new_id w \<mapsto>
               Evaluation_model_dump (agent_card_url req) (chat_url req) ''running''))\<rparr>"

text \<open>
  The state of a stored record: a field is set when it is present and not \<open>None\<close>.
  \<open>record_inv\<close> is the invariant of a record, \<open>store_inv\<close> that of the collection.
\<close>

definition is_set :: "pydict \<Rightarrow> string \<Rightarrow> bool" where
  "is_set d k = (case map_of d k of None \<Rightarrow> False | Some PNone \<Rightarrow> False | Some v \<Rightarrow> True)"

definition record_inv :: "pydict \<Rightarrow> bool" where
  "record_inv d =
     ((is_set d ''metrics'' = is_set d ''html_report'')
      \<and> (\<not> is_set d ''error'' \<or> map_of d ''status'' = Some (PStr ''failed'')))"

definition store_inv :: "world \<Rightarrow> bool" where
  "store_inv w =
     (case db w of
        None \<Rightarrow> True
      | Some docs \<Rightarrow> (\<forall>oid. case docs oid of None \<Rightarrow> True | Some d \<Rightarrow> record_inv d))"

text \<open>
  The cached report of a stored record is in order when it is missing, \<open>None\<close> or a
  non-empty string; \<open>reports_ok\<close> says so of every record of the collection.
\<close>

definition report_ok :: "pydict \<Rightarrow> bool" where
  "report_ok d =
     (case map_of d ''html_report'' of
        None \<Rightarrow> True
      | Some PNone \<Rightarrow> True
      | Some (PStr s) \<Rightarrow> s \<noteq> []
      | Some v \<Rightarrow> False)"

definition reports_ok :: "world \<Rightarrow> bool" where
  "reports_ok w =
     (case db w of
        None \<Rightarrow> True
      | Some docs \<Rightarrow> (\<forall>oid. case docs oid of None \<Rightarrow> True | Some d \<Rightarrow> report_ok d))"

text \<open>
  The worlds the service can be in: it starts with an empty collection, and the
  collection is touched by \<open>evaluate\<close> and read by \<open>get_evaluation_report\<close> only.
\<close>

inductive reachable :: "world \<Rightarrow> bool" where
  start: "db w = Some Map.empty \<Longrightarrow> reachable w"
| evaluated: "reachable w \<Longrightarrow> reachable (snd (evaluate repr req w))"
| reported: "reachable w \<Longrightarrow> reachable (snd (get_evaluation_report repr evaluation_id w))"

section \<open>Two example worlds\<close>

text \<open>
  \<open>world_down\<close>: every request times out. \<open>world_flaky\<close>: the first request times out,
  every later one is answered. Both start with an empty collection.
\<close>

definition world_down :: world where
  "world_down =
     \<lparr>net = (\<lambda>n url. Failure ''timed out''), sent = 0, trace = [],
      db = Some Map.empty, db_ops = 0, db_fault = (\<lambda>n. None),
      db_gen = (\<lambda>n. ''65f0c0ffee0000000000000a'')\<rparr>"


section \<open>Example records\<close>

text \<open>
  \<open>no_repr\<close> stands in for Python's printing of numbers and containers in examples.
  \<open>world_with d\<close> is a world whose collection holds the one document \<open>d\<close>;
  \<open>doc_blank\<close> is a record whose cached report is the empty string.
\<close>

definition no_repr :: "pyval \<Rightarrow> string" where
  "no_repr v = []"

definition example_id :: string where
  "example_id = ''65f0c0ffee0000000000000a''"



text \<open>The record that \<open>get_evaluation_report\<close> hands to the reporter for a stored document.\<close>

definition report_view :: "pydict \<Rightarrow> pydict" where
  "report_view d =
     [(''status'', dict_get d ''status''),
      (''agent_card_url'', dict_get d ''agent_card_url''),
      (''chat_url'', dict_get d ''chat_url''),
      (''metrics'', py_or (dict_get d ''metrics'') (PDict []))]"

text \<open>
  \<open>world_up\<close>: every request is answered and the store never fails. \<open>world_store_fails\<close>: the
  same, but the second operation on the store raises.
\<close>

definition example_req :: EvaluationRequest where
  "example_req = \<lparr>agent_card_url = ''http://a/card'', chat_url = None\<rparr>"

definition world_up :: world where
  "world_up =
     \<lparr>net = (\<lambda>n url. Body ''{}''), sent = 0, trace = [],
      db = Some Map.empty, db_ops = 0, db_fault = (\<lambda>n. None),
      db_gen = (\<lambda>n. example_id)\<rparr>"

definition world_store_fails :: world where
  "world_store_fails =
     \<lparr>net = (\<lambda>n url. Body ''{}''), sent = 0, trace = [],
      db = Some Map.empty, db_ops = 0,
      db_fault = (\<lambda>n. if n = 1 then Some ''connection lost'' else None),
      db_gen = (\<lambda>n. example_id)\<rparr>"


text \<open>
  \<open>world_chat_down\<close>: the agent card is served, every request for another URL times
  out. \<open>example_req_chat\<close> asks for chat logs as well.
\<close>

definition example_req_chat :: EvaluationRequest where
  "example_req_chat =
     \<lparr>agent_card_url = ''http://a/card'', chat_url = Some ''http://a/chat''\<rparr>"

definition world_chat_down :: world where
  "world_chat_down =
     \<lparr>net = (\<lambda>n url. if url = ''http://a/card'' then Body ''{}'' else Failure ''timed out''),
      sent = 0, trace = [], db = Some Map.empty, db_ops = 0, db_fault = (\<lambda>n. None),
      db_gen = (\<lambda>n. example_id)\<rparr>"

section \<open>Properties of the scorer\<close>

lemma norm_hundredth:
  assumes "0 \<le> k" and "k < 100"
  shows "norm_py (of_int k / 100) = of_int k / 100"
proof -
  have c: "max 0 (min 1 (real_of_int k / 100)) = real_of_int k / 100"
    using assms by simp
  show ?thesis
    unfolding norm_py_def c py_round_def by simp
qed

lemma spec_norm_hundredth:
  assumes "0 \<le> k" and "k < 100"
  shows "spec_norm (of_int k / 100) = of_int k / 100"
proof -
  have c: "clamp (real_of_int k / 100) 0 1 = real_of_int k / 100"
    using assms by (simp add: clamp_def)
  show ?thesis
    unfolding spec_norm_def c by simp
qed

lemma norm_py_spec_norm:
  "norm_py (of_int (n mod 100) / 100) = spec_norm (of_int (n mod 100) / 100)"
proof -
  have r: "0 \<le> n mod 100" "n mod 100 < 100"
    by simp_all
  show ?thesis
    by (simp only: norm_hundredth [OF r] spec_norm_hundredth [OF r])
qed

lemma dummy_deepeval_score: "dummy_deepeval a c = metrics_dict (score a c)"
proof -
  have cf: "(case c of Some s \<Rightarrow> (if s \<noteq> [] then int (length s) else 0) | None \<Rightarrow> 0) mod 1000
          = (case c of Some t \<Rightarrow> int (length t) mod 1000 | None \<Rightarrow> 0)"
    by (cases c) auto
  show ?thesis
    by (simp only: dummy_deepeval_def score_def metrics_dict_def cf Let_def norm_py_spec_norm
          McpCompliance.select_convs Safety.select_convs Chatbot.select_convs
          Metrics.select_convs)
qed

lemma normalized_hundredth: "normalized (Some (PFloat (norm_py (of_int (n mod 100) / 100))))"
proof -
  have e: "norm_py (of_int (n mod 100) / 100) = of_int (n mod 100) / 100"
    by (rule norm_hundredth) simp_all
  have r: "0 \<le> real_of_int (n mod 100) / 100" "real_of_int (n mod 100) / 100 \<le> 1"
    by simp_all
  have f: "of_int \<lfloor>real_of_int (n mod 100) / 100 * 100\<rfloor> = real_of_int (n mod 100) / 100 * 100"
    by simp
  show ?thesis
    unfolding normalized_def e using r f by simp
qed

text \<open>
  Claim C2. The scorer is a function of the two texts alone, and the dictionary it
  returns is the \<open>Metrics\<close> value of the specification's formulas: with
  \<open>base = max(1, length(agentCardText))\<close> and \<open>chatFactor = length(chatText) mod 1000\<close>
  (\<open>0\<close> without chat text), every sub-score is given by its formula. For an agent card
  of length 130 and no chat text, \<open>spec_alignment\<close> is \<open>0.30\<close> and \<open>tools_schema_valid\<close>
  is \<open>0.43\<close>. Equal texts give equal metrics.
\<close>

theorem scorer_matches_spec:
  "dummy_deepeval agent_card chat_logs = metrics_dict (score agent_card chat_logs)
   \<and> (length agent_card = 130 \<longrightarrow>
        metric (dummy_deepeval agent_card None) ''mcp_compliance'' ''spec_alignment''
          = Some (PFloat 0.30)
        \<and> metric (dummy_deepeval agent_card None) ''mcp_compliance'' ''tools_schema_valid''
          = Some (PFloat 0.43))
   \<and> (agent_card' = agent_card \<and> chat_logs' = chat_logs \<longrightarrow>
        dummy_deepeval agent_card' chat_logs' = dummy_deepeval agent_card chat_logs)"
proof -
  have a: "norm_py (3 / 10) = 3 / 10"
    using norm_hundredth [of 30] by simp
  have b: "norm_py (43 / 100) = 43 / 100"
    using norm_hundredth [of 43] by simp
  have ex: "length agent_card = 130 \<Longrightarrow>
        metric (dummy_deepeval agent_card None) ''mcp_compliance'' ''spec_alignment''
          = Some (PFloat 0.30)
        \<and> metric (dummy_deepeval agent_card None) ''mcp_compliance'' ''tools_schema_valid''
          = Some (PFloat 0.43)"
    unfolding dummy_deepeval_def Let_def metric_def by (simp add: a b)
  show ?thesis
    using dummy_deepeval_score ex by blast
qed

theorem scorer_matches_spec_witness:
  "length (replicate 130 CHR ''a'') = 130
   \<and> metric (dummy_deepeval (replicate 130 CHR ''a'') None) ''mcp_compliance'' ''spec_alignment''
       = Some (PFloat 0.30)
   \<and> metric (dummy_deepeval (replicate 130 CHR ''a'') None) ''mcp_compliance''
       ''tools_schema_valid'' = Some (PFloat 0.43)
   \<and> dummy_deepeval (replicate 130 CHR ''a'') None
       = metrics_dict (score (replicate 130 CHR ''a'') None)"
proof -
  have h: "length (replicate 130 CHR ''a'') = 130"
    by simp
  show ?thesis
    using h scorer_matches_spec [of "replicate 130 CHR ''a''" None]
    by blast
qed

text \<open>
  Claim C3, as stated, fails: \<open>latency\<close> is a numeric value of the scorer's output and
  is \<open>100 + (base mod 50)\<close>, never in \<open>[0, 1]\<close>. For the empty agent card it is \<open>101\<close>.
\<close>

theorem scorer_values_counterexample:
  "metric (dummy_deepeval [] None) ''chatbot'' ''latency'' = Some (PInt 101)
   \<and> \<not> (real_of_int 101 \<le> 1)"
  by (simp add: dummy_deepeval_def metric_def)

text \<open>
  Claim C3, amended. For texts of any length, each of the eight normalised sub-scores
  is a float in \<open>[0.00, 1.00]\<close> with at most two decimals; \<open>latency\<close> is an integer
  between 100 and 149.
\<close>

theorem scorer_values_bounded:
  "normalized (metric (dummy_deepeval agent_card chat_logs) ''mcp_compliance'' ''spec_alignment'')
   \<and> normalized (metric (dummy_deepeval agent_card chat_logs) ''mcp_compliance'' ''tools_schema_valid'')
   \<and> normalized (metric (dummy_deepeval agent_card chat_logs) ''safety'' ''toxicity'')
   \<and> normalized (metric (dummy_deepeval agent_card chat_logs) ''safety'' ''compliance'')
   \<and> normalized (metric (dummy_deepeval agent_card chat_logs) ''safety'' ''harmfulness'')
   \<and> normalized (metric (dummy_deepeval agent_card chat_logs) ''chatbot'' ''relevance'')
   \<and> normalized (metric (dummy_deepeval agent_card chat_logs) ''chatbot'' ''helpfulness'')
   \<and> normalized (metric (dummy_deepeval agent_card chat_logs) ''chatbot'' ''factuality'')
   \<and> (\<exists>n. metric (dummy_deepeval agent_card chat_logs) ''chatbot'' ''latency'' = Some (PInt n)
          \<and> 100 \<le> n \<and> n \<le> 149)"
  unfolding dummy_deepeval_def Let_def metric_def
  by (simp add: normalized_hundredth)

section \<open>Properties of the fetcher\<close>

declare fetch_attempts.simps [simp del]

lemma retries_0: "retries url timeout backoff a 0 = []"
  by (simp add: retries_def)

lemma retries_Suc:
  "retries url timeout backoff a (Suc k)
     = [Get url timeout, Sleep (backoff * 2 ^ a)] @ retries url timeout backoff (Suc a) k"
  by (simp add: retries_def upt_conv_Cons)

lemma sleep_length_ok:
  assumes "sleep_accepted backoff (nat a)" and "0 \<le> a"
  shows "sleep_length backoff a = Inr (backoff * 2 ^ nat a)"
proof -
  have "nat a < 1024"
    using assms(1) by (simp add: sleep_accepted_def)
  then have "\<not> 1024 \<le> a"
    using assms(2) by linarith
  then show ?thesis
    by (simp add: sleep_length_def)
qed

lemma time_sleep_ok:
  assumes "sleep_accepted backoff n"
  shows "time_sleep (backoff * 2 ^ n) w
           = Inr (w\<lparr>trace := trace w @ [Sleep (backoff * 2 ^ n)]\<rparr>)"
proof -
  have nn: "0 \<le> backoff * 2 ^ n * 10 ^ 9" "0 \<le> backoff * 2 ^ n"
    using assms by (simp_all add: sleep_accepted_def)
  have up: "round_away (backoff * 2 ^ n * 10 ^ 9) < 2 ^ 63"
    using assms by (simp add: sleep_accepted_def)
  have "(0::int) \<le> round_away (backoff * 2 ^ n * 10 ^ 9)"
    using nn(1) by (simp add: round_away_def)
  then have lo: "- (2 ^ 63) \<le> round_away (backoff * 2 ^ n * 10 ^ 9)"
    by (rule order_trans [rotated]) simp
  show ?thesis
    unfolding time_sleep_def using lo up nn(2) by (simp add: not_less)
qed

lemma default_sleeps: "sleep_accepted 0.8 0" "sleep_accepted 0.8 (Suc 0)"
proof -
  have a: "(0.8::real) * 2 ^ 0 * 10 ^ 9 = of_int 800000000"
    and b: "(0.8::real) * 2 ^ Suc 0 * 10 ^ 9 = of_int 1600000000"
    by simp_all
  show "sleep_accepted 0.8 0"
    unfolding sleep_accepted_def round_away_def a by simp
  show "sleep_accepted 0.8 (Suc 0)"
    unfolding sleep_accepted_def round_away_def b by simp
qed

lemma fetch_attempts_stop:
  "\<not> a < max_retries \<Longrightarrow>
     fetch_attempts url max_retries backoff timeout a last_err w
       = (Inl (HTTPException 502
            (''Failed to fetch '' @ url @ '': ''
               @ (case last_err of None \<Rightarrow> ''None'' | Some e \<Rightarrow> e))), w)"
  by (subst fetch_attempts.simps) simp

lemma fetch_attempts_body:
  assumes "a < max_retries" and "net w (sent w) url = Body t"
  shows "fetch_attempts url max_retries backoff timeout a last_err w
           = (Inr t, w\<lparr>sent := sent w + 1, trace := trace w @ [Get url timeout]\<rparr>)"
  using assms by (subst fetch_attempts.simps) (simp add: requests_get_def)

lemma fetch_attempts_retry:
  assumes "a < max_retries - 1" and "0 \<le> a" and "sleep_accepted backoff (nat a)"
    and "net w (sent w) url = Failure e"
  shows "fetch_attempts url max_retries backoff timeout a last_err w
           = fetch_attempts url max_retries backoff timeout (a + 1) (Some e)
               (w\<lparr>sent := sent w + 1,
                  trace := trace w @ [Get url timeout, Sleep (backoff * 2 ^ nat a)]\<rparr>)"
  using assms(1,4)
  by (subst fetch_attempts.simps)
     (simp add: requests_get_def sleep_length_ok [OF assms(3,2)] time_sleep_ok [OF assms(3)])

lemma fetch_attempts_raise:
  assumes "a < max_retries - 1" and "net w (sent w) url = Failure e"
    and "sleep_length backoff a = Inl x
         \<or> (\<exists>secs. sleep_length backoff a = Inr secs
               \<and> time_sleep secs (w\<lparr>sent := sent w + 1, trace := trace w @ [Get url timeout]\<rparr>)
                    = Inl x)"
  shows "fetch_attempts url max_retries backoff timeout a last_err w
           = (Inl x, w\<lparr>sent := sent w + 1, trace := trace w @ [Get url timeout]\<rparr>)"
  using assms by (subst fetch_attempts.simps) (auto simp: requests_get_def)

lemma fetch_attempts_last:
  assumes "a < max_retries" and "\<not> a < max_retries - 1" and "net w (sent w) url = Failure e"
  shows "fetch_attempts url max_retries backoff timeout a last_err w
           = (Inl (HTTPException 502 (''Failed to fetch '' @ url @ '': '' @ e)),
              w\<lparr>sent := sent w + 1, trace := trace w @ [Get url timeout]\<rparr>)"
proof -
  have stop: "\<not> a + 1 < max_retries"
    using assms(2) by simp
  have "fetch_attempts url max_retries backoff timeout a last_err w
          = fetch_attempts url max_retries backoff timeout (a + 1) (Some e)
              (w\<lparr>sent := sent w + 1, trace := trace w @ [Get url timeout]\<rparr>)"
    using assms by (subst fetch_attempts.simps) (simp add: requests_get_def)
  also have "\<dots> = (Inl (HTTPException 502 (''Failed to fetch '' @ url @ '': '' @ e)),
              w\<lparr>sent := sent w + 1, trace := trace w @ [Get url timeout]\<rparr>)"
    by (simp only: fetch_attempts_stop [OF stop] option.case)
  finally show ?thesis .
qed

lemma fetch_attempts_succeeds:
  assumes "\<forall>j<k. sleep_accepted backoff (nat a + j)" and "0 \<le> a" and "a + int k < max_retries"
    and "\<forall>j<k. net w (sent w + j) url = Failure (err j)"
    and "net w (sent w + k) url = Body t"
  shows "fetch_attempts url max_retries backoff timeout a last_err w
           = (Inr t,
              w\<lparr>sent := sent w + k + 1,
                trace := trace w @ retries url timeout backoff (nat a) k @ [Get url timeout]\<rparr>)"
  using assms
proof (induction k arbitrary: a w last_err err)
  case 0
  have "fetch_attempts url max_retries backoff timeout a last_err w
          = (Inr t, w\<lparr>sent := sent w + 1, trace := trace w @ [Get url timeout]\<rparr>)"
    using "0.prems"(3,5) by (intro fetch_attempts_body) simp_all
  then show ?case
    by (simp add: retries_0)
next
  case (Suc k)
  let ?w2 = "w\<lparr>sent := sent w + 1,
               trace := trace w @ [Get url timeout, Sleep (backoff * 2 ^ nat a)]\<rparr>"
  have first: "net w (sent w) url = Failure (err 0)"
    using Suc.prems(4) by force
  have lt: "a < max_retries - 1"
    using Suc.prems(3) by simp
  have sl: "sleep_accepted backoff (nat a)"
    using Suc.prems(1) by force
  have n: "nat (a + 1) = Suc (nat a)"
    using Suc.prems(2) by simp
  have sls: "\<forall>j<k. sleep_accepted backoff (nat (a + 1) + j)"
    using Suc.prems(1) n by auto
  have rest: "\<forall>j<k. net ?w2 (sent ?w2 + j) url = Failure ((err \<circ> Suc) j)"
    using Suc.prems(4) by auto
  have final: "net ?w2 (sent ?w2 + k) url = Body t"
    using Suc.prems(5) by simp
  have up: "0 \<le> a + 1" "a + 1 + int k < max_retries"
    using Suc.prems(2,3) by simp_all
  have "fetch_attempts url max_retries backoff timeout a last_err w
          = fetch_attempts url max_retries backoff timeout (a + 1) (Some (err 0)) ?w2"
    by (rule fetch_attempts_retry [OF lt Suc.prems(2) sl first])
  also have "\<dots> = (Inr t, ?w2\<lparr>sent := sent ?w2 + k + 1,
           trace := trace ?w2 @ retries url timeout backoff (nat (a + 1)) k @ [Get url timeout]\<rparr>)"
    by (rule Suc.IH [OF sls up rest final])
  also have "\<dots> = (Inr t, w\<lparr>sent := sent w + Suc k + 1,
           trace := trace w @ retries url timeout backoff (nat a) (Suc k) @ [Get url timeout]\<rparr>)"
    by (simp add: n retries_Suc)
  finally show ?case .
qed

lemma fetch_attempts_exhausted:
  assumes "\<forall>j<k. sleep_accepted backoff (nat a + j)" and "0 \<le> a"
    and "a + int (Suc k) = max_retries"
    and "\<forall>j<Suc k. net w (sent w + j) url = Failure (err j)"
  shows "fetch_attempts url max_retries backoff timeout a last_err w
           = (Inl (HTTPException 502 (''Failed to fetch '' @ url @ '': '' @ err k)),
              w\<lparr>sent := sent w + Suc k,
                trace := trace w @ retries url timeout backoff (nat a) k @ [Get url timeout]\<rparr>)"
  using assms
proof (induction k arbitrary: a w last_err err)
  case 0
  have first: "net w (sent w) url = Failure (err 0)"
    using "0.prems"(4) by force
  have "fetch_attempts url max_retries backoff timeout a last_err w
          = (Inl (HTTPException 502 (''Failed to fetch '' @ url @ '': '' @ err 0)),
             w\<lparr>sent := sent w + 1, trace := trace w @ [Get url timeout]\<rparr>)"
    using "0.prems"(3) by (intro fetch_attempts_last first) simp_all
  then show ?case
    by (simp add: retries_0)
next
  case (Suc k)
  let ?w2 = "w\<lparr>sent := sent w + 1,
               trace := trace w @ [Get url timeout, Sleep (backoff * 2 ^ nat a)]\<rparr>"
  have first: "net w (sent w) url = Failure (err 0)"
    using Suc.prems(4) by force
  have lt: "a < max_retries - 1"
    using Suc.prems(3) by simp
  have sl: "sleep_accepted backoff (nat a)"
    using Suc.prems(1) by force
  have n: "nat (a + 1) = Suc (nat a)"
    using Suc.prems(2) by simp
  have sls: "\<forall>j<k. sleep_accepted backoff (nat (a + 1) + j)"
    using Suc.prems(1) n by auto
  have rest: "\<forall>j<Suc k. net ?w2 (sent ?w2 + j) url = Failure ((err \<circ> Suc) j)"
    using Suc.prems(4) by auto
  have up: "0 \<le> a + 1" "a + 1 + int (Suc k) = max_retries"
    using Suc.prems(2,3) by simp_all
  have "fetch_attempts url max_retries backoff timeout a last_err w
          = fetch_attempts url max_retries backoff timeout (a + 1) (Some (err 0)) ?w2"
    by (rule fetch_attempts_retry [OF lt Suc.prems(2) sl first])
  also have "\<dots> = (Inl (HTTPException 502 (''Failed to fetch '' @ url @ '': '' @ (err \<circ> Suc) k)),
         ?w2\<lparr>sent := sent ?w2 + Suc k,
           trace := trace ?w2 @ retries url timeout backoff (nat (a + 1)) k @ [Get url timeout]\<rparr>)"
    by (rule Suc.IH [OF sls up rest])
  also have "\<dots> = (Inl (HTTPException 502 (''Failed to fetch '' @ url @ '': '' @ err (Suc k))),
         w\<lparr>sent := sent w + Suc (Suc k),
           trace := trace w @ retries url timeout backoff (nat a) (Suc k) @ [Get url timeout]\<rparr>)"
    by (simp add: n retries_Suc)
  finally show ?case .
qed

text \<open>
  What holds of every run of the loop: the collection is not touched, at most
  \<open>max_retries - attempt\<close> more requests are sent, and a run that sends them all and
  ends in an exception ends in the 502.
\<close>

lemma fetch_attempts_any:
  "db (snd (fetch_attempts url max_retries backoff timeout a last_err w)) = db w
   \<and> db_ops (snd (fetch_attempts url max_retries backoff timeout a last_err w)) = db_ops w
   \<and> db_fault (snd (fetch_attempts url max_retries backoff timeout a last_err w)) = db_fault w
   \<and> db_gen (snd (fetch_attempts url max_retries backoff timeout a last_err w)) = db_gen w
   \<and> net (snd (fetch_attempts url max_retries backoff timeout a last_err w)) = net w
   \<and> sent (snd (fetch_attempts url max_retries backoff timeout a last_err w))
        \<le> sent w + nat (max_retries - a)
   \<and> (\<forall>x. fst (fetch_attempts url max_retries backoff timeout a last_err w) = Inl x \<longrightarrow>
          a < max_retries \<longrightarrow>
          sent (snd (fetch_attempts url max_retries backoff timeout a last_err w))
             = sent w + nat (max_retries - a) \<longrightarrow>
          (\<exists>m. net w (sent w + nat (max_retries - a) - 1) url = Failure m
              \<and> x = HTTPException 502 (''Failed to fetch '' @ url @ '': '' @ m)))"
proof (induction url max_retries backoff timeout a last_err w rule: fetch_attempts.induct)
  case (1 url max_retries backoff timeout attempt last_err w)
  let ?w1 = "w\<lparr>sent := sent w + 1, trace := trace w @ [Get url timeout]\<rparr>"
  have g: "requests_get url timeout w = (net w (sent w) url, ?w1)"
    by (simp add: requests_get_def)
  show ?case
  proof (cases "attempt < max_retries")
    case False
    then show ?thesis
      by (simp add: fetch_attempts_stop)
  next
    case True
    show ?thesis
    proof (cases "net w (sent w) url")
      case (Body t)
      then show ?thesis
        using True by (simp add: fetch_attempts_body [OF True])
    next
      case (Failure e)
      show ?thesis
      proof (cases "attempt < max_retries - 1")
        case False
        then have "nat (max_retries - attempt) = 1"
          using True by simp
        then show ?thesis
          using Failure by (simp add: fetch_attempts_last [OF True False Failure])
      next
        case lt: True
        then have two: "2 \<le> nat (max_retries - attempt)"
          by simp
        show ?thesis
        proof (cases "sleep_length backoff attempt")
          case (Inl x)
          have "fetch_attempts url max_retries backoff timeout attempt last_err w = (Inl x, ?w1)"
            by (rule fetch_attempts_raise [OF lt Failure]) (simp add: Inl)
          then show ?thesis
            using two by simp
        next
          case (Inr secs)
          show ?thesis
          proof (cases "time_sleep secs ?w1")
            case sl: (Inl x)
            have "fetch_attempts url max_retries backoff timeout attempt last_err w
                    = (Inl x, ?w1)"
              by (rule fetch_attempts_raise [OF lt Failure]) (use sl in \<open>simp add: Inr\<close>)
            then show ?thesis
              using two by simp
          next
            case sl: (Inr w2)
            have w2: "w2 = ?w1\<lparr>trace := trace ?w1 @ [Sleep secs]\<rparr>"
              using sl by (auto simp: time_sleep_def split: if_splits)
            have step: "fetch_attempts url max_retries backoff timeout attempt last_err w
                = fetch_attempts url max_retries backoff timeout (attempt + 1) (Some e) w2"
              using True lt Failure Inr sl
              by (subst fetch_attempts.simps) (simp add: g)
            note ih = "1.IH"(1) [OF True g [symmetric] Failure lt Inr sl]
            have n: "nat (max_retries - attempt) = Suc (nat (max_retries - (attempt + 1)))"
              using lt by simp
            show ?thesis
              unfolding step using ih lt by (simp add: w2 n)
          qed
        qed
      qed
    qed
  qed
qed


lemma fetch_error_all_failed:
  assumes "\<forall>j<nat max_retries - 1. sleep_accepted backoff j"
    and "fst (fetch_attempts url max_retries backoff timeout 0 last_err w) = Inl e"
  shows "\<forall>j<nat max_retries. \<exists>m. net w (sent w + j) url = Failure m"
proof (rule ccontr)
  assume "\<not> (\<forall>j<nat max_retries. \<exists>m. net w (sent w + j) url = Failure m)"
  then obtain j where j: "j < nat max_retries" "\<forall>m. net w (sent w + j) url \<noteq> Failure m"
    by blast
  define P where "P i \<longleftrightarrow> (\<exists>t. net w (sent w + i) url = Body t)" for i
  have "P j"
    using j(2) unfolding P_def by (cases "net w (sent w + j) url") auto
  define k where "k = (LEAST i. P i)"
  have Pk: "P k"
    unfolding k_def using \<open>P j\<close> by (rule LeastI)
  have kj: "k \<le> j"
    unfolding k_def using \<open>P j\<close> by (rule Least_le)
  have before: "\<forall>i<k. \<not> P i"
    unfolding k_def using not_less_Least by blast
  define err where "err i = (case net w (sent w + i) url of Failure m \<Rightarrow> m | Body t \<Rightarrow> [])" for i
  have fails: "\<forall>i<k. net w (sent w + i) url = Failure (err i)"
  proof (intro allI impI)
    fix i assume "i < k"
    then have "\<not> P i" using before by blast
    then show "net w (sent w + i) url = Failure (err i)"
      unfolding P_def err_def by (cases "net w (sent w + i) url") auto
  qed
  obtain t where t: "net w (sent w + k) url = Body t"
    using Pk unfolding P_def by blast
  have lt: "0 + int k < max_retries"
    using kj j(1) by simp
  have sl: "\<forall>i<k. sleep_accepted backoff (nat 0 + i)"
    using assms(1) kj j(1) by simp
  have "fst (fetch_attempts url max_retries backoff timeout 0 last_err w) = Inr t"
    using fetch_attempts_succeeds [OF sl order_refl lt fails t] by simp
  then show False
    using assms(2) by simp
qed



lemma fetch_raises_502:
  assumes "\<forall>j<nat max_retries - 1. sleep_accepted backoff j"
    and "fst (fetch_attempts url max_retries backoff timeout 0 None w) = Inl e"
  shows "\<exists>d. e = HTTPException 502 d"
proof (cases "0 < max_retries")
  case False
  then show ?thesis
    using assms(2) by (auto simp: fetch_attempts_stop)
next
  case True
  have all: "\<forall>j<nat max_retries. \<exists>m. net w (sent w + j) url = Failure m"
    by (rule fetch_error_all_failed [OF assms])
  define err where "err j = (case net w (sent w + j) url of Failure m \<Rightarrow> m | Body t \<Rightarrow> [])" for j
  define n where "n = nat max_retries - 1"
  have n: "nat max_retries = Suc n" "0 + int (Suc n) = max_retries"
    using True by (simp_all add: n_def)
  have sl: "\<forall>j<n. sleep_accepted backoff (nat 0 + j)"
    using assms(1) by (simp add: n_def)
  have fl: "\<forall>j<Suc n. net w (sent w + j) url = Failure (err j)"
  proof (intro allI impI)
    fix j assume "j < Suc n"
    then obtain m where "net w (sent w + j) url = Failure m"
      using all n(1) by auto
    then show "net w (sent w + j) url = Failure (err j)"
      by (simp add: err_def)
  qed
  show ?thesis
    using fetch_attempts_exhausted [OF sl order_refl n(2) fl, of timeout None] assms(2)
    by auto
qed

lemma default_sleeps_all: "\<forall>j<nat 3 - 1. sleep_accepted 0.8 j"
proof (intro allI impI)
  fix j :: nat assume "j < nat 3 - 1"
  then have "j = 0 \<or> j = Suc 0"
    by auto
  then show "sleep_accepted 0.8 j"
    using default_sleeps by auto
qed




section \<open>Properties of the reporter\<close>

lemma then_do_Inr: "then_do (Inr a) f = f a"
  by (simp add: then_do_def)

lemma then_do_eq_Inr: "then_do x f = Inr y \<Longrightarrow> \<exists>a. x = Inr a \<and> f a = Inr y"
  by (cases x) (simp_all add: then_do_def)

lemma py_get_dict: "py_get (PDict d) k dflt = Inr (dict_get_default d k dflt)"
  by (simp add: py_get_def)

lemma py_get_eq_Inr: "py_get v k dflt = Inr x \<Longrightarrow> \<exists>d. v = PDict d \<and> x = dict_get_default d k dflt"
  by (cases v) (simp_all add: py_get_def)

lemma renderable_group:
  assumes "renderable evaluation"
    and "g = ''safety'' \<or> g = ''mcp_compliance'' \<or> g = ''chatbot''"
  shows "py_get (dict_get_default evaluation ''metrics'' (PDict [])) g (PDict [])
           = Inr (PDict (group_of evaluation g))"
  using assms
  by (auto simp: renderable_def group_ok_def group_of_def py_get_def dict_get_default_def
           split: option.splits pyval.splits)

lemma render_html_report_renderable:
  assumes "renderable evaluation"
  shows "render_html_report repr evaluation =
     Inr (html_head @ py_str repr (dict_get evaluation ''status'')
           @ html_agent_card @ py_str repr (dict_get evaluation ''agent_card_url'')
           @ html_chat_logs
           @ py_str repr (py_or (dict_get evaluation ''chat_url'') (PStr em_dash))
           @ html_mcp
           @ row repr ''Spec Alignment''
               (dict_get_default (group_of evaluation ''mcp_compliance'') ''spec_alignment'' (PStr ''n/a''))
           @ html_next_row
           @ row repr ''Tools Schema Valid''
               (dict_get_default (group_of evaluation ''mcp_compliance'') ''tools_schema_valid'' (PStr ''n/a''))
           @ html_safety
           @ row repr ''Toxicity''
               (dict_get_default (group_of evaluation ''safety'') ''toxicity'' (PStr ''n/a''))
           @ html_next_row
           @ row repr ''Compliance''
               (dict_get_default (group_of evaluation ''safety'') ''compliance'' (PStr ''n/a''))
           @ html_next_row
           @ row repr ''Harmfulness''
               (dict_get_default (group_of evaluation ''safety'') ''harmfulness'' (PStr ''n/a''))
           @ html_chatbot
           @ row repr ''Relevance''
               (dict_get_default (group_of evaluation ''chatbot'') ''relevance'' (PStr ''n/a''))
           @ html_next_row
           @ row repr ''Helpfulness''
               (dict_get_default (group_of evaluation ''chatbot'') ''helpfulness'' (PStr ''n/a''))
           @ html_next_row
           @ row repr ''Factuality''
               (dict_get_default (group_of evaluation ''chatbot'') ''factuality'' (PStr ''n/a''))
           @ html_next_row
           @ row repr ''Latency (ms)''
               (dict_get_default (group_of evaluation ''chatbot'') ''latency'' (PStr ''n/a''))
           @ html_tail)"
proof -
  note g = renderable_group [OF assms]
  have s: "py_get (dict_get_default evaluation ''metrics'' (PDict [])) ''safety'' (PDict [])
           = Inr (PDict (group_of evaluation ''safety''))"
    by (rule g) simp
  have m: "py_get (dict_get_default evaluation ''metrics'' (PDict [])) ''mcp_compliance'' (PDict [])
           = Inr (PDict (group_of evaluation ''mcp_compliance''))"
    by (rule g) simp
  have b: "py_get (dict_get_default evaluation ''metrics'' (PDict [])) ''chatbot'' (PDict [])
           = Inr (PDict (group_of evaluation ''chatbot''))"
    by (rule g) simp
  show ?thesis
    by (simp only: render_html_report_def Let_def s m b then_do_Inr py_get_dict)
qed

lemma then_do_Inl: "then_do (Inl e) f = Inl e"
  by (simp add: then_do_def)

lemma py_get_non_dict:
  "\<nexists>d. v = PDict d \<Longrightarrow> py_get v k dflt = Inl (attribute_error v ''get'')"
  by (cases v) (simp_all add: py_get_def)

lemma render_html_report_raises:
  assumes "\<not> renderable evaluation"
  shows "\<exists>v. render_html_report repr evaluation = Inl (attribute_error v ''get'')"
proof -
  define M where "M = dict_get_default evaluation ''metrics'' (PDict [])"
  show ?thesis
  proof (cases "\<exists>m. M = PDict m")
    case False
    then have "py_get M ''safety'' (PDict []) = Inl (attribute_error M ''get'')"
      by (rule py_get_non_dict)
    then have "render_html_report repr evaluation = Inl (attribute_error M ''get'')"
      by (simp only: render_html_report_def Let_def M_def [symmetric] then_do_Inl)
    then show ?thesis by blast
  next
    case True
    then obtain m where m: "M = PDict m" by blast
    define sa where "sa = dict_get_default m ''safety'' (PDict [])"
    define mc where "mc = dict_get_default m ''mcp_compliance'' (PDict [])"
    define bo where "bo = dict_get_default m ''chatbot'' (PDict [])"
    have unfold: "render_html_report repr evaluation =
      then_do (py_get mc ''spec_alignment'' (PStr ''n/a'')) (\<lambda>spec_alignment.
      then_do (py_get mc ''tools_schema_valid'' (PStr ''n/a'')) (\<lambda>tools_schema_valid.
      then_do (py_get sa ''toxicity'' (PStr ''n/a'')) (\<lambda>toxicity.
      then_do (py_get sa ''compliance'' (PStr ''n/a'')) (\<lambda>compliance.
      then_do (py_get sa ''harmfulness'' (PStr ''n/a'')) (\<lambda>harmfulness.
      then_do (py_get bo ''relevance'' (PStr ''n/a'')) (\<lambda>relevance.
      then_do (py_get bo ''helpfulness'' (PStr ''n/a'')) (\<lambda>helpfulness.
      then_do (py_get bo ''factuality'' (PStr ''n/a'')) (\<lambda>factuality.
      then_do (py_get bo ''latency'' (PStr ''n/a'')) (\<lambda>latency.
      Inr (html_head @ py_str repr (dict_get evaluation ''status'')
           @ html_agent_card @ py_str repr (dict_get evaluation ''agent_card_url'')
           @ html_chat_logs
           @ py_str repr (py_or (dict_get evaluation ''chat_url'') (PStr em_dash))
           @ html_mcp @ row repr ''Spec Alignment'' spec_alignment
           @ html_next_row @ row repr ''Tools Schema Valid'' tools_schema_valid
           @ html_safety @ row repr ''Toxicity'' toxicity
           @ html_next_row @ row repr ''Compliance'' compliance
           @ html_next_row @ row repr ''Harmfulness'' harmfulness
           @ html_chatbot @ row repr ''Relevance'' relevance
           @ html_next_row @ row repr ''Helpfulness'' helpfulness
           @ html_next_row @ row repr ''Factuality'' factuality
           @ html_next_row @ row repr ''Latency (ms)'' latency
           @ html_tail))))))))))"
      by (simp only: render_html_report_def Let_def M_def [symmetric] m py_get_dict then_do_Inr
            sa_def mc_def bo_def)
    have bad: "(\<nexists>d. mc = PDict d) \<or> (\<nexists>d. sa = PDict d) \<or> (\<nexists>d. bo = PDict d)"
      using assms m
      unfolding renderable_def group_ok_def M_def sa_def mc_def bo_def dict_get_default_def
      by (auto split: option.splits pyval.splits)
    show ?thesis
    proof (cases "\<exists>d. mc = PDict d")
      case False
      then have "py_get mc ''spec_alignment'' (PStr ''n/a'') = Inl (attribute_error mc ''get'')"
        by (rule py_get_non_dict)
      then have "render_html_report repr evaluation = Inl (attribute_error mc ''get'')"
        by (simp only: unfold then_do_Inl)
      then show ?thesis by blast
    next
      case mcd: True
      then obtain d1 where d1: "mc = PDict d1" by blast
      show ?thesis
      proof (cases "\<exists>d. sa = PDict d")
        case False
        then have "py_get sa ''toxicity'' (PStr ''n/a'') = Inl (attribute_error sa ''get'')"
          by (rule py_get_non_dict)
        then have "render_html_report repr evaluation = Inl (attribute_error sa ''get'')"
          by (simp only: unfold d1 py_get_dict then_do_Inr then_do_Inl)
        then show ?thesis by blast
      next
        case True
        then obtain d2 where d2: "sa = PDict d2" by blast
        have "\<nexists>d. bo = PDict d"
          using bad mcd True by blast
        then have "py_get bo ''relevance'' (PStr ''n/a'') = Inl (attribute_error bo ''get'')"
          by (rule py_get_non_dict)
        then have "render_html_report repr evaluation = Inl (attribute_error bo ''get'')"
          by (simp only: unfold d1 d2 py_get_dict then_do_Inr then_do_Inl)
        then show ?thesis by blast
      qed
    qed
  qed
qed
















section \<open>Properties of the report endpoint\<close>

lemma dict_get_id:
  "k \<noteq> ''_id'' \<Longrightarrow> dict_get ((''_id'', v) # d) k = dict_get d k"
  by (simp add: dict_get_def)

lemma find_one_found:
  assumes "db w = Some docs" and "db_fault w (db_ops w) = None" and "docs oid = Some d"
  shows "find_one oid w = (Inr (Some ((''_id'', PObjectId oid) # d)), w\<lparr>db_ops := db_ops w + 1\<rparr>)"
  using assms by (simp add: find_one_def)

lemma get_evaluation_report_found:
  assumes "db w = Some docs" and "ObjectId evaluation_id = Some oid"
    and "db_fault w (db_ops w) = None" and "docs oid = Some d"
  shows "get_evaluation_report repr evaluation_id w =
     (if \<not> truthy (dict_get d ''html_report'') then
        (case render_html_report repr (report_view d) of
           Inl e \<Rightarrow> Inl e
         | Inr html \<Rightarrow> Inr (HTMLResponse html 200))
      else html_response (dict_get d ''html_report'') 200,
      w\<lparr>db_ops := db_ops w + 1\<rparr>)"
proof -
  have k: "dict_get ((''_id'', PObjectId oid) # d) ''html_report'' = dict_get d ''html_report''"
    "dict_get ((''_id'', PObjectId oid) # d) ''status'' = dict_get d ''status''"
    "dict_get ((''_id'', PObjectId oid) # d) ''agent_card_url'' = dict_get d ''agent_card_url''"
    "dict_get ((''_id'', PObjectId oid) # d) ''chat_url'' = dict_get d ''chat_url''"
    "dict_get ((''_id'', PObjectId oid) # d) ''metrics'' = dict_get d ''metrics''"
    by (simp_all add: dict_get_id)
  have r: "html_response (PStr html) 200 = Inr (HTMLResponse html 200)" for html
    by (simp add: html_response_def)
  show ?thesis
    by (simp add: get_evaluation_report_def assms(1,2) find_one_found [OF assms(1,3,4)]
          report_view_def k r Let_def split: sum.splits)
qed

lemma find_one_db: "find_one oid w = (r, w1) \<Longrightarrow> db w1 = db w"
  by (auto simp: find_one_def Let_def split: option.splits)

lemma get_evaluation_report_db:
  "db (snd (get_evaluation_report repr evaluation_id w)) = db w"
  by (auto simp: get_evaluation_report_def Let_def dest: find_one_db
           split: option.splits sum.splits prod.splits)


lemma html_head_nonempty: "html_head \<noteq> []"
  by (simp add: html_head_def)

lemma render_html_report_nonempty:
  assumes "render_html_report repr evaluation = Inr html"
  shows "html \<noteq> []"
proof -
  have "renderable evaluation"
    using assms render_html_report_raises [of evaluation repr] by auto
  from render_html_report_renderable [OF this, of repr] assms
  show ?thesis
    by (auto simp: html_head_nonempty)
qed


lemma ObjectId_example: "ObjectId example_id = Some example_id"
  by (simp add: ObjectId_def example_id_def hex_digit_def hex_lower_def ascii_space_def)




section \<open>Properties of the service\<close>

lemma fetch_default_frame:
  assumes "fetch_default url w = (r, w')"
  shows "db w' = db w" "db_ops w' = db_ops w" "db_fault w' = db_fault w" "db_gen w' = db_gen w"
    and "r = Inl e \<Longrightarrow> \<exists>d. e = HTTPException 502 d"
proof -
  have f: "fetch_attempts url 3 0.8 10 0 None w = (r, w')"
    using assms by (simp add: fetch_default_def fetch_with_retries_def)
  note a = fetch_attempts_any [of url 3 "0.8" 10 0 None w, unfolded f]
  show "db w' = db w" "db_ops w' = db_ops w" "db_fault w' = db_fault w" "db_gen w' = db_gen w"
    using a by simp_all
  show "\<exists>d. e = HTTPException 502 d" if "r = Inl e"
    using fetch_raises_502 [OF default_sleeps_all, of url 10 w e] f that by simp
qed

lemma fetch_default_net:
  assumes "fetch_default url w = (r, w')"
  shows "net w' = net w"
  using assms fetch_attempts_any [of url 3 "0.8" 10 0 None w]
  by (simp add: fetch_default_def fetch_with_retries_def)

lemma fetch_default_exhausted:
  assumes "\<forall>j<3. net w (sent w + j) url = Failure (err j)"
  shows "fetch_default url w =
     (Inl (HTTPException 502 (''Failed to fetch '' @ url @ '': '' @ err 2)),
      w\<lparr>sent := sent w + 3,
        trace := trace w @ retries url 10 0.8 0 2 @ [Get url 10]\<rparr>)"
proof -
  have sl: "\<forall>j<2. sleep_accepted 0.8 (nat 0 + j)"
    using default_sleeps_all by simp
  have m: "(0::int) + int (Suc 2) = 3" by simp
  have f: "\<forall>j<Suc 2. net w (sent w + j) url = Failure (err j)"
    using assms by (simp add: numeral_3_eq_3)
  have "fetch_default url w =
     (Inl (HTTPException 502 (''Failed to fetch '' @ url @ '': '' @ err 2)),
      w\<lparr>sent := sent w + Suc 2,
        trace := trace w @ retries url 10 0.8 (nat 0) 2 @ [Get url 10]\<rparr>)"
    unfolding fetch_default_def fetch_with_retries_def
    by (rule fetch_attempts_exhausted [OF sl order_refl m f])
  then show ?thesis
    by simp
qed

lemma fetch_inputs_frame:
  assumes "fetch_inputs req w = (r, w')"
  shows "db w' = db w \<and> db_ops w' = db_ops w \<and> db_fault w' = db_fault w
         \<and> db_gen w' = db_gen w \<and> (\<forall>e. r = Inl e \<longrightarrow> (\<exists>d. e = HTTPException 502 d))"
proof (cases "fetch_default (agent_card_url req) w")
  case (Pair r1 w1)
  note f1 = fetch_default_frame [OF Pair]
  show ?thesis
  proof (cases r1)
    case (Inl e1)
    then have "r = Inl e1" "w' = w1"
      using assms Pair by (simp_all add: fetch_inputs_def)
    then show ?thesis
      using f1 Inl by auto
  next
    case (Inr a)
    show ?thesis
    proof (cases "chat_url req")
      case None
      then have "r = Inr (a, None)" "w' = w1"
        using assms Pair Inr by (simp_all add: fetch_inputs_def)
      then show ?thesis
        using f1 by auto
    next
      case (Some u)
      show ?thesis
      proof (cases "fetch_default u w1")
        case p2: (Pair r2 w2)
        note f2 = fetch_default_frame [OF p2]
        have "w' = w2" "r = (case r2 of Inl e \<Rightarrow> Inl e | Inr c \<Rightarrow> Inr (a, Some c))"
          using assms Pair Inr Some p2 by (auto simp: fetch_inputs_def split: sum.splits)
        then show ?thesis
          using f1(1-4) f2 by (auto split: sum.splits)
      qed
    qed
  qed
qed

lemma insert_one_created:
  assumes "can_create docs w"
  shows "insert_one (Evaluation_model_dump (agent_card_url req) (chat_url req) ''running'') w
     = (Inr (new_id w,
             dict_set ''_id'' (PObjectId (new_id w))
               (Evaluation_model_dump (agent_card_url req) (chat_url req) ''running'')),
        created req docs w)"
  using assms by (simp add: can_create_def insert_one_def created_def new_id_def Let_def)

lemma update_one_at:
  assumes "db w = Some (docs(oid \<mapsto> d))"
  shows "update_one oid changes w =
     (case db_fault w (db_ops w) of
        Some msg \<Rightarrow> (Inl (Exception msg), w\<lparr>db_ops := db_ops w + 1\<rparr>)
      | None \<Rightarrow> (Inr (), w\<lparr>db_ops := db_ops w + 1,
                     db := Some (docs(oid \<mapsto> dict_merge d changes))\<rparr>))"
  using assms by (simp add: update_one_def Let_def split: option.splits)

lemma map_of_dict_set: "map_of (dict_set k v d) = (map_of d)(k \<mapsto> v)"
  by (induction d) (auto simp: fun_eq_iff)

lemma temp_doc_metrics:
  "map_of (temp_doc req doc updated metrics) ''metrics'' = Some metrics"
  by (simp add: temp_doc_def Let_def map_of_dict_set)

lemma temp_doc_renderable:
  "renderable (temp_doc req doc updated (dummy_deepeval a c))"
  by (simp add: renderable_def temp_doc_metrics dummy_deepeval_def Let_def group_ok_def)

lemma temp_doc_rendered:
  "\<exists>html. render_html_report repr (temp_doc req doc updated (dummy_deepeval a c)) = Inr html"
  using render_html_report_renderable [OF temp_doc_renderable] by blast


lemma created_simps:
  "db (created req docs w)
     = Some (docs(new_id w \<mapsto>
               Evaluation_model_dump (agent_card_url req) (chat_url req) ''running''))"
  "db_ops (created req docs w) = db_ops w + 1"
  "db_fault (created req docs w) = db_fault w"
  "db_gen (created req docs w) = db_gen w"
  by (simp_all add: created_def)

lemma evaluate_created:
  assumes "can_create docs w"
  shows "evaluate repr req w =
     (case evaluate_try repr req
             (dict_set ''_id'' (PObjectId (new_id w))
                (Evaluation_model_dump (agent_card_url req) (chat_url req) ''running''))
             (new_id w) (created req docs w) of
        (Inr r, w2) \<Rightarrow> (Inr r, w2)
      | (Inl (HTTPException status detail), w2) \<Rightarrow>
          (case update_one (new_id w) [(''status'', PStr ''failed'')] w2 of
             (Inl e', w3) \<Rightarrow> (Inl e', w3)
           | (Inr u, w3) \<Rightarrow> (Inl (HTTPException status detail), w3))
      | (Inl (Exception e), w2) \<Rightarrow>
          (case update_one (new_id w)
                  [(''status'', PStr ''failed''), (''error'', PStr e)] w2 of
             (Inl e', w3) \<Rightarrow> (Inl e', w3)
           | (Inr u, w3) \<Rightarrow>
               (Inl (HTTPException 500 (''Evaluation failed: '' @ e)), w3)))"
proof -
  have "db w = Some docs"
    using assms by (simp add: can_create_def)
  then show ?thesis
    by (simp add: evaluate_def Let_def insert_one_created [OF assms])
qed

lemma evaluate_fetch_failed:
  assumes c: "can_create docs w"
    and f: "fetch_inputs req (created req docs w) = (Inl e, w2)"
    and u: "db_fault w (db_ops w + 1) = None"
  shows "evaluate repr req w =
     (Inl e,
      w2\<lparr>db_ops := db_ops w + 2,
         db := Some (docs(new_id w \<mapsto>
                 dict_merge (Evaluation_model_dump (agent_card_url req) (chat_url req) ''running'')
                   [(''status'', PStr ''failed'')]))\<rparr>)"
proof -
  note fr = fetch_inputs_frame [OF f]
  obtain d where e: "e = HTTPException 502 d"
    using fr by blast
  have db2: "db w2 = Some (docs(new_id w \<mapsto>
               Evaluation_model_dump (agent_card_url req) (chat_url req) ''running''))"
    and ops2: "db_ops w2 = db_ops w + 1" and fault2: "db_fault w2 = db_fault w"
    using fr by (simp_all add: created_simps)
  have t: "evaluate_try repr req
             (dict_set ''_id'' (PObjectId (new_id w))
                (Evaluation_model_dump (agent_card_url req) (chat_url req) ''running''))
             (new_id w) (created req docs w) = (Inl (HTTPException 502 d), w2)"
    by (simp add: evaluate_try_def f e)
  have up: "update_one (new_id w) [(''status'', PStr ''failed'')] w2
      = (Inr (), w2\<lparr>db_ops := db_ops w + 2,
           db := Some (docs(new_id w \<mapsto>
                 dict_merge (Evaluation_model_dump (agent_card_url req) (chat_url req) ''running'')
                   [(''status'', PStr ''failed'')]))\<rparr>)"
    using u by (simp add: update_one_at [OF db2] ops2 fault2 del: dict_merge.simps)
  show ?thesis
    by (simp only: evaluate_created [OF c] t up e prod.case sum.case exn.case)
qed

lemma evaluate_persist_failed:
  assumes c: "can_create docs w"
    and f: "fetch_inputs req (created req docs w) = (Inr (a, ch), w2)"
    and u1: "db_fault w (db_ops w + 1) = Some msg"
    and u2: "db_fault w (db_ops w + 2) = None"
  shows "evaluate repr req w =
     (Inl (HTTPException 500 (''Evaluation failed: '' @ msg)),
      w2\<lparr>db_ops := db_ops w + 3,
         db := Some (docs(new_id w \<mapsto>
                 dict_merge (Evaluation_model_dump (agent_card_url req) (chat_url req) ''running'')
                   [(''status'', PStr ''failed''), (''error'', PStr msg)]))\<rparr>)"
proof -
  note fr = fetch_inputs_frame [OF f]
  have db2: "db w2 = Some (docs(new_id w \<mapsto>
               Evaluation_model_dump (agent_card_url req) (chat_url req) ''running''))"
    and ops2: "db_ops w2 = db_ops w + 1" and fault2: "db_fault w2 = db_fault w"
    using fr by (simp_all add: created_simps)
  let ?doc = "dict_set ''_id'' (PObjectId (new_id w))
                (Evaluation_model_dump (agent_card_url req) (chat_url req) ''running'')"
  let ?w3 = "w2\<lparr>db_ops := db_ops w + 2\<rparr>"
  obtain html where h: "render_html_report repr
      (temp_doc req ?doc [(''status'', PStr ''completed''), (''metrics'', dummy_deepeval a ch)]
         (dummy_deepeval a ch)) = Inr html"
    using temp_doc_rendered by blast
  have up1: "update_one (new_id w) changes w2 = (Inl (Exception msg), ?w3)" for changes
    using u1 by (simp add: update_one_at [OF db2] ops2 fault2)
  have t: "evaluate_try repr req ?doc (new_id w) (created req docs w)
             = (Inl (Exception msg), ?w3)"
    by (simp add: evaluate_try_def f Let_def h up1 del: dict_merge.simps)
  have db3: "db ?w3 = Some (docs(new_id w \<mapsto>
               Evaluation_model_dump (agent_card_url req) (chat_url req) ''running''))"
    using db2 by simp
  have up2: "update_one (new_id w) [(''status'', PStr ''failed''), (''error'', PStr msg)] ?w3
      = (Inr (), w2\<lparr>db_ops := db_ops w + 3,
           db := Some (docs(new_id w \<mapsto>
                 dict_merge (Evaluation_model_dump (agent_card_url req) (chat_url req) ''running'')
                   [(''status'', PStr ''failed''), (''error'', PStr msg)]))\<rparr>)"
    by (subst update_one_at [OF db3])
       (use u2 in \<open>simp add: fault2 del: dict_merge.simps\<close>)
  show ?thesis
    by (simp only: evaluate_created [OF c] t up2 prod.case sum.case exn.case)
qed

lemma evaluate_completed:
  assumes c: "can_create docs w"
    and f: "fetch_inputs req (created req docs w) = (Inr (a, ch), w2)"
    and u: "db_fault w (db_ops w + 1) = None"
  shows "\<exists>html. html \<noteq> [] \<and> evaluate repr req w =
     (Inr (PDict [(''id'', PStr (new_id w)), (''status'', PStr ''completed''),
                  (''metrics'', dummy_deepeval a ch)]),
      w2\<lparr>db_ops := db_ops w + 2,
         db := Some (docs(new_id w \<mapsto>
                 dict_merge (Evaluation_model_dump (agent_card_url req) (chat_url req) ''running'')
                   [(''status'', PStr ''completed''), (''metrics'', dummy_deepeval a ch),
                    (''html_report'', PStr html)]))\<rparr>)"
proof -
  note fr = fetch_inputs_frame [OF f]
  have db2: "db w2 = Some (docs(new_id w \<mapsto>
               Evaluation_model_dump (agent_card_url req) (chat_url req) ''running''))"
    and ops2: "db_ops w2 = db_ops w + 1" and fault2: "db_fault w2 = db_fault w"
    using fr by (simp_all add: created_simps)
  let ?doc = "dict_set ''_id'' (PObjectId (new_id w))
                (Evaluation_model_dump (agent_card_url req) (chat_url req) ''running'')"
  obtain html where h: "render_html_report repr
      (temp_doc req ?doc [(''status'', PStr ''completed''), (''metrics'', dummy_deepeval a ch)]
         (dummy_deepeval a ch)) = Inr html"
    using temp_doc_rendered by blast
  have ne: "html \<noteq> []"
    using h by (rule render_html_report_nonempty)
  have up: "update_one (new_id w)
              [(''status'', PStr ''completed''), (''metrics'', dummy_deepeval a ch),
               (''html_report'', PStr html)] w2
      = (Inr (), w2\<lparr>db_ops := db_ops w + 2,
           db := Some (docs(new_id w \<mapsto>
                 dict_merge (Evaluation_model_dump (agent_card_url req) (chat_url req) ''running'')
                   [(''status'', PStr ''completed''), (''metrics'', dummy_deepeval a ch),
                    (''html_report'', PStr html)]))\<rparr>)"
    using u by (simp add: update_one_at [OF db2] ops2 fault2 del: dict_merge.simps)
  have t: "evaluate_try repr req ?doc (new_id w) (created req docs w)
      = (Inr (PDict [(''id'', PStr (new_id w)), (''status'', PStr ''completed''),
                  (''metrics'', dummy_deepeval a ch)]),
         w2\<lparr>db_ops := db_ops w + 2,
           db := Some (docs(new_id w \<mapsto>
                 dict_merge (Evaluation_model_dump (agent_card_url req) (chat_url req) ''running'')
                   [(''status'', PStr ''completed''), (''metrics'', dummy_deepeval a ch),
                    (''html_report'', PStr html)]))\<rparr>)"
    by (simp add: evaluate_try_def f Let_def h up del: dict_merge.simps)
  have "evaluate repr req w =
     (Inr (PDict [(''id'', PStr (new_id w)), (''status'', PStr ''completed''),
                  (''metrics'', dummy_deepeval a ch)]),
      w2\<lparr>db_ops := db_ops w + 2,
         db := Some (docs(new_id w \<mapsto>
                 dict_merge (Evaluation_model_dump (agent_card_url req) (chat_url req) ''running'')
                   [(''status'', PStr ''completed''), (''metrics'', dummy_deepeval a ch),
                    (''html_report'', PStr html)]))\<rparr>)"
    by (simp only: evaluate_created [OF c] t prod.case sum.case)
  then show ?thesis
    using ne by blast
qed




lemma evaluate_fetch_failed_unrecorded:
  assumes c: "can_create docs w"
    and f: "fetch_inputs req (created req docs w) = (Inl e, w2)"
    and u: "db_fault w (db_ops w + 1) = Some msg"
  shows "evaluate repr req w = (Inl (Exception msg), w2\<lparr>db_ops := db_ops w + 2\<rparr>)"
proof -
  note fr = fetch_inputs_frame [OF f]
  obtain d where e: "e = HTTPException 502 d"
    using fr by blast
  have db2: "db w2 = Some (docs(new_id w \<mapsto>
               Evaluation_model_dump (agent_card_url req) (chat_url req) ''running''))"
    and ops2: "db_ops w2 = db_ops w + 1" and fault2: "db_fault w2 = db_fault w"
    using fr by (simp_all add: created_simps)
  have t: "evaluate_try repr req
             (dict_set ''_id'' (PObjectId (new_id w))
                (Evaluation_model_dump (agent_card_url req) (chat_url req) ''running''))
             (new_id w) (created req docs w) = (Inl (HTTPException 502 d), w2)"
    by (simp add: evaluate_try_def f e)
  have up: "update_one (new_id w) [(''status'', PStr ''failed'')] w2
      = (Inl (Exception msg), w2\<lparr>db_ops := db_ops w + 2\<rparr>)"
    by (subst update_one_at [OF db2])
       (use u in \<open>simp add: ops2 fault2 del: dict_merge.simps\<close>)
  show ?thesis
    by (simp only: evaluate_created [OF c] t up e prod.case sum.case exn.case)
qed

lemma evaluate_persist_failed_unrecorded:
  assumes c: "can_create docs w"
    and f: "fetch_inputs req (created req docs w) = (Inr (a, ch), w2)"
    and u1: "db_fault w (db_ops w + 1) = Some msg"
    and u2: "db_fault w (db_ops w + 2) = Some msg2"
  shows "evaluate repr req w = (Inl (Exception msg2), w2\<lparr>db_ops := db_ops w + 3\<rparr>)"
proof -
  note fr = fetch_inputs_frame [OF f]
  have db2: "db w2 = Some (docs(new_id w \<mapsto>
               Evaluation_model_dump (agent_card_url req) (chat_url req) ''running''))"
    and ops2: "db_ops w2 = db_ops w + 1" and fault2: "db_fault w2 = db_fault w"
    using fr by (simp_all add: created_simps)
  let ?doc = "dict_set ''_id'' (PObjectId (new_id w))
                (Evaluation_model_dump (agent_card_url req) (chat_url req) ''running'')"
  let ?w3 = "w2\<lparr>db_ops := db_ops w + 2\<rparr>"
  obtain html where h: "render_html_report repr
      (temp_doc req ?doc [(''status'', PStr ''completed''), (''metrics'', dummy_deepeval a ch)]
         (dummy_deepeval a ch)) = Inr html"
    using temp_doc_rendered by blast
  have up1: "update_one (new_id w) changes w2 = (Inl (Exception msg), ?w3)" for changes
    using u1 by (simp add: update_one_at [OF db2] ops2 fault2)
  have t: "evaluate_try repr req ?doc (new_id w) (created req docs w)
             = (Inl (Exception msg), ?w3)"
    by (simp add: evaluate_try_def f Let_def h up1 del: dict_merge.simps)
  have db3: "db ?w3 = Some (docs(new_id w \<mapsto>
               Evaluation_model_dump (agent_card_url req) (chat_url req) ''running''))"
    using db2 by simp
  have up2: "update_one (new_id w) [(''status'', PStr ''failed''), (''error'', PStr msg)] ?w3
      = (Inl (Exception msg2), w2\<lparr>db_ops := db_ops w + 3\<rparr>)"
    by (subst update_one_at [OF db3])
       (use u2 in \<open>simp add: fault2 del: dict_merge.simps\<close>)
  show ?thesis
    by (simp only: evaluate_created [OF c] t up2 prod.case sum.case exn.case)
qed

lemma merge_failed:
  "dict_merge (Evaluation_model_dump a c ''running'') [(''status'', PStr ''failed'')]
     = Evaluation_model_dump a c ''failed''"
  by (simp add: Evaluation_model_dump_def)

lemma merge_failed_error:
  "dict_merge (Evaluation_model_dump a c ''running'')
       [(''status'', PStr ''failed''), (''error'', PStr msg)]
     = [(''agent_card_url'', PStr a),
        (''chat_url'', (case c of None \<Rightarrow> PNone | Some u \<Rightarrow> PStr u)),
        (''status'', PStr ''failed''), (''metrics'', PNone), (''html_report'', PNone),
        (''error'', PStr msg)]"
  by (simp add: Evaluation_model_dump_def)

lemma merge_completed:
  "dict_merge (Evaluation_model_dump a c ''running'')
       [(''status'', PStr ''completed''), (''metrics'', m), (''html_report'', PStr html)]
     = [(''agent_card_url'', PStr a),
        (''chat_url'', (case c of None \<Rightarrow> PNone | Some u \<Rightarrow> PStr u)),
        (''status'', PStr ''completed''), (''metrics'', m), (''html_report'', PStr html),
        (''error'', PNone)]"
  by (simp add: Evaluation_model_dump_def)

lemma dummy_deepeval_not_None: "dummy_deepeval a c \<noteq> PNone"
  by (simp add: dummy_deepeval_def Let_def)

lemma record_inv_running: "record_inv (Evaluation_model_dump a c s)"
  by (simp add: record_inv_def is_set_def Evaluation_model_dump_def)

lemma record_inv_failed_error:
  "record_inv (dict_merge (Evaluation_model_dump a c ''running'')
       [(''status'', PStr ''failed''), (''error'', PStr msg)])"
  unfolding merge_failed_error by (simp add: record_inv_def is_set_def)

lemma record_inv_completed:
  "record_inv (dict_merge (Evaluation_model_dump a c ''running'')
       [(''status'', PStr ''completed''), (''metrics'', dummy_deepeval x y),
        (''html_report'', PStr html)])"
  unfolding merge_completed
  using dummy_deepeval_not_None [of x y]
  by (cases "dummy_deepeval x y") (simp_all add: record_inv_def is_set_def)

lemma evaluate_store:
  assumes c: "can_create docs w"
  shows "\<exists>d. db (snd (evaluate repr req w)) = Some (docs(new_id w \<mapsto> d)) \<and> record_inv d"
proof (cases "fetch_inputs req (created req docs w)")
  case (Pair r w2)
  note fr = fetch_inputs_frame [OF Pair]
  have db2: "db w2 = Some (docs(new_id w \<mapsto>
               Evaluation_model_dump (agent_card_url req) (chat_url req) ''running''))"
    using fr by (simp add: created_simps)
  show ?thesis
  proof (cases r)
    case (Inl e)
    show ?thesis
    proof (cases "db_fault w (db_ops w + 1)")
      case None
      show ?thesis
        using evaluate_fetch_failed [OF c Pair [unfolded Inl] None, of repr]
          record_inv_running [of "agent_card_url req" "chat_url req" "''failed''"]
        by (simp only: merge_failed) auto
    next
      case (Some msg)
      show ?thesis
        using evaluate_fetch_failed_unrecorded [OF c Pair [unfolded Inl] Some, of repr] db2
          record_inv_running [of "agent_card_url req" "chat_url req" "''running''"]
        by auto
    qed
  next
    case (Inr ac)
    obtain a ch where ac: "ac = (a, ch)" by (cases ac)
    note f = Pair [unfolded Inr ac]
    show ?thesis
    proof (cases "db_fault w (db_ops w + 1)")
      case None
      obtain html where "evaluate repr req w =
         (Inr (PDict [(''id'', PStr (new_id w)), (''status'', PStr ''completed''),
                  (''metrics'', dummy_deepeval a ch)]),
          w2\<lparr>db_ops := db_ops w + 2,
             db := Some (docs(new_id w \<mapsto>
                 dict_merge (Evaluation_model_dump (agent_card_url req) (chat_url req) ''running'')
                   [(''status'', PStr ''completed''), (''metrics'', dummy_deepeval a ch),
                    (''html_report'', PStr html)]))\<rparr>)"
        using evaluate_completed [OF c f None, of repr] by blast
      then show ?thesis
        using record_inv_completed [of "agent_card_url req" "chat_url req" a ch html]
        by auto
    next
      case (Some msg)
      show ?thesis
      proof (cases "db_fault w (db_ops w + 2)")
        case None
        show ?thesis
          using evaluate_persist_failed [OF c f Some None, of repr]
            record_inv_failed_error [of "agent_card_url req" "chat_url req" msg]
          by auto
      next
        case s2: (Some msg2)
        show ?thesis
          using evaluate_persist_failed_unrecorded [OF c f Some s2, of repr] db2
            record_inv_running [of "agent_card_url req" "chat_url req" "''running''"]
          by auto
      qed
    qed
  qed
qed

lemma evaluate_not_created:
  assumes "\<forall>docs. \<not> can_create docs w"
  shows "db (snd (evaluate repr req w)) = db w"
  using assms
  by (auto simp: evaluate_def insert_one_def can_create_def new_id_def Let_def
           split: option.splits)

lemma evaluate_store_inv:
  assumes "store_inv w"
  shows "store_inv (snd (evaluate repr req w))"
proof (cases "\<exists>docs. can_create docs w")
  case True
  then obtain docs where c: "can_create docs w" by blast
  obtain d where d: "db (snd (evaluate repr req w)) = Some (docs(new_id w \<mapsto> d))"
    "record_inv d"
    using evaluate_store [OF c] by blast
  have "db w = Some docs"
    using c by (simp add: can_create_def)
  then have "\<forall>oid. case docs oid of None \<Rightarrow> True | Some x \<Rightarrow> record_inv x"
    using assms by (simp add: store_inv_def)
  then show ?thesis
    using d by (auto simp: store_inv_def split: option.splits)
next
  case False
  then show ?thesis
    using assms evaluate_not_created [of w repr req] by (simp add: store_inv_def)
qed

lemma fetch_inputs_exhausted:
  assumes "\<forall>j<3. net w (sent w + j) (agent_card_url req) = Failure (err j)"
  shows "fetch_inputs req w =
     (Inl (HTTPException 502 (''Failed to fetch '' @ agent_card_url req @ '': '' @ err 2)),
      w\<lparr>sent := sent w + 3,
        trace := trace w @ retries (agent_card_url req) 10 0.8 0 2
                   @ [Get (agent_card_url req) 10]\<rparr>)"
  by (simp add: fetch_inputs_def fetch_default_exhausted [OF assms])

lemma fetch_inputs_chat_exhausted:
  assumes "fetch_default (agent_card_url req) w = (Inr a, w1)" and "chat_url req = Some u"
    and "\<forall>j<3. net w1 (sent w1 + j) u = Failure (err j)"
  shows "fetch_inputs req w =
     (Inl (HTTPException 502 (''Failed to fetch '' @ u @ '': '' @ err 2)),
      w1\<lparr>sent := sent w1 + 3, trace := trace w1 @ retries u 10 0.8 0 2 @ [Get u 10]\<rparr>)"
  by (simp add: fetch_inputs_def assms(1,2) fetch_default_exhausted [OF assms(3)])

lemma fetch_default_first_try:
  assumes "net w (sent w) url = Body t"
  shows "fetch_default url w =
     (Inr t, w\<lparr>sent := sent w + 1, trace := trace w @ [Get url 10]\<rparr>)"
  unfolding fetch_default_def fetch_with_retries_def
  by (rule fetch_attempts_body [OF _ assms]) simp

lemma fetch_inputs_first_try:
  assumes "net w (sent w) (agent_card_url req) = Body t" and "chat_url req = None"
  shows "fetch_inputs req w =
     (Inr (t, None),
      w\<lparr>sent := sent w + 1, trace := trace w @ [Get (agent_card_url req) 10]\<rparr>)"
proof -
  have "fetch_default (agent_card_url req) w =
     (Inr t, w\<lparr>sent := sent w + 1, trace := trace w @ [Get (agent_card_url req) 10]\<rparr>)"
    unfolding fetch_default_def fetch_with_retries_def
    by (rule fetch_attempts_body [OF _ assms(1)]) simp
  then show ?thesis
    by (simp add: fetch_inputs_def assms(2))
qed

text \<open>
  Claim C4. The two failure paths of \<open>POST /evaluate\<close> persist differently. When the
  fetcher raises, the record created at the start is updated to status \<open>failed\<close> and
  nothing else changes: its \<open>error\<close> field stays \<open>None\<close>, and the fetcher's exception is
  passed on. When the persisting update raises an exception with message \<open>msg\<close>, the
  record is updated to status \<open>failed\<close> with \<open>error = msg\<close>, and the caller gets a 500
  with detail \<open>Evaluation failed: msg\<close>. Scoring and reporting do not raise in
  \<open>evaluate\<close>. Each statement is for a handler whose own update goes through.
\<close>

theorem evaluate_failure_paths:
  "can_create docs w \<longrightarrow>
     (fetch_inputs req (created req docs w) = (Inl e, w2)
        \<and> db_fault w (db_ops w + 1) = None \<longrightarrow>
      evaluate repr req w =
        (Inl e,
         w2\<lparr>db_ops := db_ops w + 2,
            db := Some (docs(new_id w \<mapsto>
              [(''agent_card_url'', PStr (agent_card_url req)),
               (''chat_url'', (case chat_url req of None \<Rightarrow> PNone | Some u \<Rightarrow> PStr u)),
               (''status'', PStr ''failed''), (''metrics'', PNone), (''html_report'', PNone),
               (''error'', PNone)]))\<rparr>))
   \<and> (fetch_inputs req (created req docs w) = (Inr (a, ch), w2)
        \<and> db_fault w (db_ops w + 1) = Some msg \<and> db_fault w (db_ops w + 2) = None \<longrightarrow>
      evaluate repr req w =
        (Inl (HTTPException 500 (''Evaluation failed: '' @ msg)),
         w2\<lparr>db_ops := db_ops w + 3,
            db := Some (docs(new_id w \<mapsto>
              [(''agent_card_url'', PStr (agent_card_url req)),
               (''chat_url'', (case chat_url req of None \<Rightarrow> PNone | Some u \<Rightarrow> PStr u)),
               (''status'', PStr ''failed''), (''metrics'', PNone), (''html_report'', PNone),
               (''error'', PStr msg)]))\<rparr>))"
proof (intro impI conjI)
  assume c: "can_create docs w"
    and h: "fetch_inputs req (created req docs w) = (Inl e, w2)
        \<and> db_fault w (db_ops w + 1) = None"
  show "evaluate repr req w =
        (Inl e,
         w2\<lparr>db_ops := db_ops w + 2,
            db := Some (docs(new_id w \<mapsto>
              [(''agent_card_url'', PStr (agent_card_url req)),
               (''chat_url'', (case chat_url req of None \<Rightarrow> PNone | Some u \<Rightarrow> PStr u)),
               (''status'', PStr ''failed''), (''metrics'', PNone), (''html_report'', PNone),
               (''error'', PNone)]))\<rparr>)"
    using evaluate_fetch_failed [OF c conjunct1 [OF h] conjunct2 [OF h], of repr]
    by (simp only: merge_failed) (simp add: Evaluation_model_dump_def)
next
  assume c: "can_create docs w"
    and h: "fetch_inputs req (created req docs w) = (Inr (a, ch), w2)
        \<and> db_fault w (db_ops w + 1) = Some msg \<and> db_fault w (db_ops w + 2) = None"
  from h have h1: "fetch_inputs req (created req docs w) = (Inr (a, ch), w2)"
    and h2: "db_fault w (db_ops w + 1) = Some msg"
    and h3: "db_fault w (db_ops w + 2) = None" by simp_all
  show "evaluate repr req w =
        (Inl (HTTPException 500 (''Evaluation failed: '' @ msg)),
         w2\<lparr>db_ops := db_ops w + 3,
            db := Some (docs(new_id w \<mapsto>
              [(''agent_card_url'', PStr (agent_card_url req)),
               (''chat_url'', (case chat_url req of None \<Rightarrow> PNone | Some u \<Rightarrow> PStr u)),
               (''status'', PStr ''failed''), (''metrics'', PNone), (''html_report'', PNone),
               (''error'', PStr msg)]))\<rparr>)"
    using evaluate_persist_failed [OF c h1 h2 h3, of repr]
    by (simp only: merge_failed_error)
qed

lemma example_simps:
  "agent_card_url example_req = ''http://a/card''" "chat_url example_req = None"
  by (simp_all add: example_req_def)

lemma can_create_examples:
  "can_create Map.empty world_down" "can_create Map.empty world_up"
  "can_create Map.empty world_store_fails"
  by (simp_all add: can_create_def world_down_def world_up_def world_store_fails_def)

lemma new_id_examples:
  "new_id world_down = example_id" "new_id world_up = example_id"
  "new_id world_store_fails = example_id"
  by (simp_all add: new_id_def world_down_def world_up_def world_store_fails_def example_id_def)

theorem evaluate_failure_paths_witness:
  "fst (evaluate no_repr example_req world_down)
     = Inl (HTTPException 502 ''Failed to fetch http://a/card: timed out'')
   \<and> db (snd (evaluate no_repr example_req world_down))
     = Some (Map.empty(example_id \<mapsto>
         [(''agent_card_url'', PStr ''http://a/card''), (''chat_url'', PNone),
          (''status'', PStr ''failed''), (''metrics'', PNone), (''html_report'', PNone),
          (''error'', PNone)]))
   \<and> fst (evaluate no_repr example_req world_store_fails)
     = Inl (HTTPException 500 ''Evaluation failed: connection lost'')
   \<and> db (snd (evaluate no_repr example_req world_store_fails))
     = Some (Map.empty(example_id \<mapsto>
         [(''agent_card_url'', PStr ''http://a/card''), (''chat_url'', PNone),
          (''status'', PStr ''failed''), (''metrics'', PNone), (''html_report'', PNone),
          (''error'', PStr ''connection lost'')]))"
proof -
  let ?w1 = "created example_req Map.empty world_down"
  let ?v1 = "created example_req Map.empty world_store_fails"
  have n1: "\<forall>j<3. net ?w1 (sent ?w1 + j) (agent_card_url example_req)
               = Failure ((\<lambda>j. ''timed out'') j)"
    by (simp add: created_def world_down_def)
  have f1: "fetch_inputs example_req ?w1
      = (Inl (HTTPException 502 (''Failed to fetch '' @ agent_card_url example_req @ '': ''
               @ ''timed out'')),
         ?w1\<lparr>sent := sent ?w1 + 3,
           trace := trace ?w1 @ retries (agent_card_url example_req) 10 0.8 0 2
                      @ [Get (agent_card_url example_req) 10]\<rparr>)
      \<and> db_fault world_down (db_ops world_down + 1) = None"
    using fetch_inputs_exhausted [OF n1] by (simp add: world_down_def)
  have n2: "net ?v1 (sent ?v1) (agent_card_url example_req) = Body ''{}''"
    by (simp add: created_def world_store_fails_def)
  have f2: "fetch_inputs example_req ?v1
      = (Inr (''{}'', None),
         ?v1\<lparr>sent := sent ?v1 + 1,
           trace := trace ?v1 @ [Get (agent_card_url example_req) 10]\<rparr>)
      \<and> db_fault world_store_fails (db_ops world_store_fails + 1) = Some ''connection lost''
      \<and> db_fault world_store_fails (db_ops world_store_fails + 2) = None"
    using fetch_inputs_first_try [OF n2 example_simps(2)] by (simp add: world_store_fails_def)
  note t1 = evaluate_failure_paths
    [where w = world_down and docs = Map.empty and req = example_req and repr = no_repr,
     THEN mp, OF can_create_examples(1), THEN conjunct1, THEN mp, OF f1]
  note t2 = evaluate_failure_paths
    [where w = world_store_fails and docs = Map.empty and req = example_req
       and repr = no_repr,
     THEN mp, OF can_create_examples(3), THEN conjunct2, THEN mp, OF f2]
  show ?thesis
    unfolding t1 t2 by (simp add: example_simps new_id_examples)
qed

lemma can_create_chat: "can_create Map.empty world_chat_down"
  by (simp add: can_create_def world_chat_down_def)

lemma chat_example_simps:
  "agent_card_url example_req_chat = ''http://a/card''"
  "chat_url example_req_chat = Some ''http://a/chat''"
  by (simp_all add: example_req_chat_def)

text \<open>
  Claim C5. When all \<open>max_retries\<close> attempts for a URL have been made and the fetcher
  raises, its exception is an \<open>HTTPException\<close> with status 502 whose detail is exactly
  \<open>Failed to fetch <url>: <error>\<close>, with the requested URL and the message of the
  last failure; this is what happens when every attempt fails and the sleeps between
  the attempts go through. \<open>evaluate\<close> passes that exception on to its caller, for the
  agent card URL and for the chat URL alike.
\<close>

theorem fetch_error_surfaces_as_502:
  "(0 < max_retries
      \<and> fst (fetch_with_retries url max_retries backoff timeout w) = Inl x
      \<and> sent (snd (fetch_with_retries url max_retries backoff timeout w))
           = sent w + nat max_retries \<longrightarrow>
    (\<exists>m. net w (sent w + nat max_retries - 1) url = Failure m
        \<and> x = HTTPException 502 (''Failed to fetch '' @ url @ '': '' @ m)))
   \<and> ((\<forall>j<nat max_retries - 1. sleep_accepted backoff j) \<and> 0 < max_retries
      \<and> (\<forall>j<nat max_retries. net w (sent w + j) url = Failure (err j)) \<longrightarrow>
    fst (fetch_with_retries url max_retries backoff timeout w)
      = Inl (HTTPException 502
               (''Failed to fetch '' @ url @ '': '' @ err (nat max_retries - 1))))
   \<and> (can_create docs w
      \<and> (\<forall>j<3. net w (sent w + j) (agent_card_url req) = Failure (err j))
      \<and> db_fault w (db_ops w + 1) = None \<longrightarrow>
    fst (evaluate repr req w)
      = Inl (HTTPException 502
               (''Failed to fetch '' @ agent_card_url req @ '': '' @ err 2)))
   \<and> (can_create docs w
      \<and> fetch_default (agent_card_url req) (created req docs w) = (Inr a, w1)
      \<and> chat_url req = Some u
      \<and> (\<forall>j<3. net w1 (sent w1 + j) u = Failure (err j))
      \<and> db_fault w (db_ops w + 1) = None \<longrightarrow>
    fst (evaluate repr req w)
      = Inl (HTTPException 502 (''Failed to fetch '' @ u @ '': '' @ err 2)))"
proof (intro conjI impI)
  assume h: "0 < max_retries
      \<and> fst (fetch_with_retries url max_retries backoff timeout w) = Inl x
      \<and> sent (snd (fetch_with_retries url max_retries backoff timeout w))
           = sent w + nat max_retries"
  then show "\<exists>m. net w (sent w + nat max_retries - 1) url = Failure m
        \<and> x = HTTPException 502 (''Failed to fetch '' @ url @ '': '' @ m)"
    using fetch_attempts_any [of url max_retries backoff timeout 0 None w]
    by (simp add: fetch_with_retries_def)
next
  assume h: "(\<forall>j<nat max_retries - 1. sleep_accepted backoff j) \<and> 0 < max_retries
      \<and> (\<forall>j<nat max_retries. net w (sent w + j) url = Failure (err j))"
  define n where "n = nat max_retries - 1"
  have n: "nat max_retries = Suc n" "0 + int (Suc n) = max_retries"
    using h unfolding n_def by simp_all
  have fails: "\<forall>j<Suc n. net w (sent w + j) url = Failure (err j)"
    using h n(1) by simp
  have sl: "\<forall>j<n. sleep_accepted backoff (nat 0 + j)"
    using h by (simp add: n_def)
  show "fst (fetch_with_retries url max_retries backoff timeout w)
      = Inl (HTTPException 502
               (''Failed to fetch '' @ url @ '': '' @ err (nat max_retries - 1)))"
    unfolding fetch_with_retries_def n(1)
    using fetch_attempts_exhausted [OF sl order_refl n(2) fails, of timeout None]
    by simp
next
  assume h: "can_create docs w
      \<and> (\<forall>j<3. net w (sent w + j) (agent_card_url req) = Failure (err j))
      \<and> db_fault w (db_ops w + 1) = None"
  then have c: "can_create docs w" and u: "db_fault w (db_ops w + 1) = None"
    by simp_all
  have f: "\<forall>j<3. net (created req docs w) (sent (created req docs w) + j) (agent_card_url req)
             = Failure (err j)"
    using h by (simp add: created_def)
  show "fst (evaluate repr req w)
      = Inl (HTTPException 502
               (''Failed to fetch '' @ agent_card_url req @ '': '' @ err 2))"
    by (simp only: evaluate_fetch_failed [OF c fetch_inputs_exhausted [OF f] u] fst_conv)
next
  assume h: "can_create docs w
      \<and> fetch_default (agent_card_url req) (created req docs w) = (Inr a, w1)
      \<and> chat_url req = Some u
      \<and> (\<forall>j<3. net w1 (sent w1 + j) u = Failure (err j))
      \<and> db_fault w (db_ops w + 1) = None"
  then have c: "can_create docs w"
    and f1: "fetch_default (agent_card_url req) (created req docs w) = (Inr a, w1)"
    and cu: "chat_url req = Some u"
    and fl: "\<forall>j<3. net w1 (sent w1 + j) u = Failure (err j)"
    and up: "db_fault w (db_ops w + 1) = None"
    by simp_all
  show "fst (evaluate repr req w)
      = Inl (HTTPException 502 (''Failed to fetch '' @ u @ '': '' @ err 2))"
    by (simp only: evaluate_fetch_failed [OF c fetch_inputs_chat_exhausted [OF f1 cu fl] up]
          fst_conv)
qed

theorem fetch_error_surfaces_as_502_witness:
  "fst (fetch_with_retries ''http://a/card'' 3 0.8 10 world_down)
     = Inl (HTTPException 502 ''Failed to fetch http://a/card: timed out'')
   \<and> (\<exists>m. net world_down (sent world_down + nat 3 - 1) ''http://a/card'' = Failure m
         \<and> HTTPException 502 ''Failed to fetch http://a/card: timed out''
             = HTTPException 502 (''Failed to fetch '' @ ''http://a/card'' @ '': '' @ m))
   \<and> fst (evaluate no_repr example_req world_down)
     = Inl (HTTPException 502 ''Failed to fetch http://a/card: timed out'')
   \<and> fst (evaluate no_repr example_req_chat world_chat_down)
     = Inl (HTTPException 502 ''Failed to fetch http://a/chat: timed out'')"
proof -
  let ?w1 = "created example_req_chat Map.empty world_chat_down"
  let ?w2 = "?w1\<lparr>sent := sent ?w1 + 1, trace := trace ?w1 @ [Get ''http://a/card'' 10]\<rparr>"
  have a: "(\<forall>j<nat 3 - 1. sleep_accepted 0.8 j) \<and> (0::int) < 3
      \<and> (\<forall>j<nat 3. net world_down (sent world_down + j) ''http://a/card''
             = Failure ((\<lambda>j. ''timed out'') j))"
    using default_sleeps_all by (simp add: world_down_def)
  have b: "can_create Map.empty world_down
      \<and> (\<forall>j<3. net world_down (sent world_down + j) (agent_card_url example_req)
             = Failure ((\<lambda>j. ''timed out'') j))
      \<and> db_fault world_down (db_ops world_down + 1) = None"
    by (simp add: can_create_examples) (simp add: world_down_def)
  have n: "net ?w1 (sent ?w1) ''http://a/card'' = Body ''{}''"
    by (simp add: created_def world_chat_down_def)
  have f: "fetch_default (agent_card_url example_req_chat) ?w1 = (Inr ''{}'', ?w2)"
    using fetch_default_first_try [OF n] by (simp add: chat_example_simps)
  have c: "can_create Map.empty world_chat_down
      \<and> fetch_default (agent_card_url example_req_chat) ?w1 = (Inr ''{}'', ?w2)
      \<and> chat_url example_req_chat = Some ''http://a/chat''
      \<and> (\<forall>j<3. net ?w2 (sent ?w2 + j) ''http://a/chat'' = Failure ((\<lambda>j. ''timed out'') j))
      \<and> db_fault world_chat_down (db_ops world_chat_down + 1) = None"
    using f can_create_chat
    by (simp add: chat_example_simps) (simp add: created_def world_chat_down_def)
  note t = fetch_error_surfaces_as_502
    [where w = world_down and url = "''http://a/card''" and max_retries = 3
       and backoff = "0.8" and timeout = 10 and err = "\<lambda>j. ''timed out''"
       and docs = Map.empty and req = example_req and repr = no_repr
       and x = "HTTPException 502 ''Failed to fetch http://a/card: timed out''"]
  note t' = fetch_error_surfaces_as_502
    [where w = world_chat_down and err = "\<lambda>j. ''timed out''"
       and docs = Map.empty and req = example_req_chat and repr = no_repr
       and a = "''{}''" and ?w1.0 = ?w2 and u = "''http://a/chat''"]
  have s1: "fst (fetch_with_retries ''http://a/card'' 3 0.8 10 world_down)
     = Inl (HTTPException 502 ''Failed to fetch http://a/card: timed out'')"
    using t [THEN conjunct2, THEN conjunct1, THEN mp, OF a] by simp
  have three: "sent (snd (fetch_with_retries ''http://a/card'' 3 0.8 10 world_down))
      = sent world_down + nat 3"
  proof -
    have fl: "\<forall>j<Suc 2. net world_down (sent world_down + j) ''http://a/card''
                = Failure ((\<lambda>j. ''timed out'') j)"
      by (simp add: world_down_def)
    have sl: "\<forall>j<2. sleep_accepted 0.8 (nat 0 + j)"
      using default_sleeps_all by simp
    have m: "(0::int) + int (Suc 2) = 3" by simp
    show ?thesis
      unfolding fetch_with_retries_def
      using fetch_attempts_exhausted [OF sl order_refl m fl, of 10 None] by simp
  qed
  have s0: "\<exists>m. net world_down (sent world_down + nat 3 - 1) ''http://a/card'' = Failure m
         \<and> HTTPException 502 ''Failed to fetch http://a/card: timed out''
             = HTTPException 502 (''Failed to fetch '' @ ''http://a/card'' @ '': '' @ m)"
    using t [THEN conjunct1, THEN mp] s1 three by simp
  have s2: "fst (evaluate no_repr example_req world_down)
     = Inl (HTTPException 502 ''Failed to fetch http://a/card: timed out'')"
    using t [THEN conjunct2, THEN conjunct2, THEN conjunct1, THEN mp, OF b]
    by (simp add: example_simps)
  have s3: "fst (evaluate no_repr example_req_chat world_chat_down)
     = Inl (HTTPException 502 ''Failed to fetch http://a/chat: timed out'')"
    using t' [THEN conjunct2, THEN conjunct2, THEN conjunct2, THEN mp, OF c]
    by simp
  show ?thesis
    using s0 s1 s2 s3 by blast
qed

text \<open>
  Claim C6. On the success path of \<open>POST /evaluate\<close> the store sees two operations,
  the insert and one update, and that update sets \<open>status = completed\<close>, \<open>metrics\<close>
  and \<open>html_report\<close> together. Every call of \<open>evaluate\<close>, whatever its outcome,
  preserves the invariant of the collection: in each record \<open>metrics\<close> and
  \<open>html_report\<close> are both set or both unset, and \<open>error\<close> is set only when the
  status is \<open>failed\<close>.
\<close>

theorem evaluate_completes_atomically:
  "(can_create docs w \<and> fetch_inputs req (created req docs w) = (Inr (a, ch), w2)
      \<and> db_fault w (db_ops w + 1) = None \<longrightarrow>
    (\<exists>html. html \<noteq> [] \<and>
       evaluate repr req w =
         (Inr (PDict [(''id'', PStr (new_id w)), (''status'', PStr ''completed''),
                      (''metrics'', dummy_deepeval a ch)]),
          w2\<lparr>db_ops := db_ops w + 2,
             db := Some (docs(new_id w \<mapsto>
               [(''agent_card_url'', PStr (agent_card_url req)),
                (''chat_url'', (case chat_url req of None \<Rightarrow> PNone | Some u \<Rightarrow> PStr u)),
                (''status'', PStr ''completed''), (''metrics'', dummy_deepeval a ch),
                (''html_report'', PStr html), (''error'', PNone)]))\<rparr>)))
   \<and> (store_inv w \<longrightarrow> store_inv (snd (evaluate repr req w)))"
proof (intro conjI impI)
  assume h: "can_create docs w \<and> fetch_inputs req (created req docs w) = (Inr (a, ch), w2)
      \<and> db_fault w (db_ops w + 1) = None"
  then have c: "can_create docs w"
    and f: "fetch_inputs req (created req docs w) = (Inr (a, ch), w2)"
    and u: "db_fault w (db_ops w + 1) = None" by simp_all
  show "\<exists>html. html \<noteq> [] \<and>
       evaluate repr req w =
         (Inr (PDict [(''id'', PStr (new_id w)), (''status'', PStr ''completed''),
                      (''metrics'', dummy_deepeval a ch)]),
          w2\<lparr>db_ops := db_ops w + 2,
             db := Some (docs(new_id w \<mapsto>
               [(''agent_card_url'', PStr (agent_card_url req)),
                (''chat_url'', (case chat_url req of None \<Rightarrow> PNone | Some u \<Rightarrow> PStr u)),
                (''status'', PStr ''completed''), (''metrics'', dummy_deepeval a ch),
                (''html_report'', PStr html), (''error'', PNone)]))\<rparr>)"
    using evaluate_completed [OF c f u, of repr]
    by (simp only: merge_completed)
next
  assume "store_inv w"
  then show "store_inv (snd (evaluate repr req w))"
    by (rule evaluate_store_inv)
qed

theorem evaluate_completes_atomically_witness:
  "store_inv world_up
   \<and> store_inv (snd (evaluate no_repr example_req world_up))
   \<and> (\<exists>html. html \<noteq> [] \<and>
        fst (evaluate no_repr example_req world_up)
          = Inr (PDict [(''id'', PStr example_id), (''status'', PStr ''completed''),
                        (''metrics'', dummy_deepeval ''{}'' None)])
        \<and> db (snd (evaluate no_repr example_req world_up))
          = Some (Map.empty(example_id \<mapsto>
               [(''agent_card_url'', PStr ''http://a/card''), (''chat_url'', PNone),
                (''status'', PStr ''completed''), (''metrics'', dummy_deepeval ''{}'' None),
                (''html_report'', PStr html), (''error'', PNone)]))
        \<and> db_ops (snd (evaluate no_repr example_req world_up)) = 2)"
proof -
  let ?w1 = "created example_req Map.empty world_up"
  have i: "store_inv world_up"
    by (simp add: store_inv_def world_up_def)
  have n: "net ?w1 (sent ?w1) (agent_card_url example_req) = Body ''{}''"
    by (simp add: created_def world_up_def)
  have a: "can_create Map.empty world_up
      \<and> fetch_inputs example_req ?w1
          = (Inr (''{}'', None),
             ?w1\<lparr>sent := sent ?w1 + 1,
               trace := trace ?w1 @ [Get (agent_card_url example_req) 10]\<rparr>)
      \<and> db_fault world_up (db_ops world_up + 1) = None"
    using fetch_inputs_first_try [OF n example_simps(2)] can_create_examples(2)
    by (simp add: world_up_def)
  note t = evaluate_completes_atomically
    [where w = world_up and docs = Map.empty and req = example_req and repr = no_repr]
  have o: "db_ops world_up = 0"
    by (simp add: world_up_def)
  show ?thesis
    using i t [THEN conjunct2, THEN mp, OF i] t [THEN conjunct1, THEN mp, OF a]
    by (auto simp: example_simps new_id_examples o)
qed

section \<open>The report endpoint on the records the service stores\<close>

lemma report_ok_stored:
  "report_ok (Evaluation_model_dump a c s)"
  "report_ok (dict_merge (Evaluation_model_dump a c ''running'')
       [(''status'', PStr ''failed''), (''error'', PStr msg)])"
  "html \<noteq> [] \<Longrightarrow>
     report_ok (dict_merge (Evaluation_model_dump a c ''running'')
       [(''status'', PStr ''completed''), (''metrics'', m), (''html_report'', PStr html)])"
  unfolding merge_failed_error merge_completed
  by (simp_all add: report_ok_def Evaluation_model_dump_def)

lemma view_renderable_stored:
  "renderable (report_view (Evaluation_model_dump a c s))"
  "renderable (report_view (dict_merge (Evaluation_model_dump a c ''running'')
       [(''status'', PStr ''failed''), (''error'', PStr msg)]))"
  "renderable (report_view (dict_merge (Evaluation_model_dump a c ''running'')
       [(''status'', PStr ''completed''), (''metrics'', dummy_deepeval x y),
        (''html_report'', PStr html)]))"
  unfolding merge_failed_error merge_completed
  by (simp_all add: report_view_def renderable_def dict_get_def py_or_def
        Evaluation_model_dump_def dummy_deepeval_def Let_def group_ok_def)

lemma evaluate_stored:
  assumes c: "can_create docs w"
  shows "\<exists>d. db (snd (evaluate repr req w)) = Some (docs(new_id w \<mapsto> d))
           \<and> report_ok d \<and> renderable (report_view d)"
proof (cases "fetch_inputs req (created req docs w)")
  case (Pair r w2)
  note fr = fetch_inputs_frame [OF Pair]
  have db2: "db w2 = Some (docs(new_id w \<mapsto>
               Evaluation_model_dump (agent_card_url req) (chat_url req) ''running''))"
    using fr by (simp add: created_simps)
  show ?thesis
  proof (cases r)
    case (Inl e)
    show ?thesis
    proof (cases "db_fault w (db_ops w + 1)")
      case None
      show ?thesis
        using evaluate_fetch_failed [OF c Pair [unfolded Inl] None, of repr]
          report_ok_stored(1) [of "agent_card_url req" "chat_url req" "''failed''"]
          view_renderable_stored(1) [of "agent_card_url req" "chat_url req" "''failed''"]
        by (simp only: merge_failed) auto
    next
      case (Some msg)
      show ?thesis
        using evaluate_fetch_failed_unrecorded [OF c Pair [unfolded Inl] Some, of repr] db2
          report_ok_stored(1) [of "agent_card_url req" "chat_url req" "''running''"]
          view_renderable_stored(1) [of "agent_card_url req" "chat_url req" "''running''"]
        by auto
    qed
  next
    case (Inr ac)
    obtain a ch where ac: "ac = (a, ch)" by (cases ac)
    note f = Pair [unfolded Inr ac]
    show ?thesis
    proof (cases "db_fault w (db_ops w + 1)")
      case None
      obtain html where "html \<noteq> []" "evaluate repr req w =
         (Inr (PDict [(''id'', PStr (new_id w)), (''status'', PStr ''completed''),
                  (''metrics'', dummy_deepeval a ch)]),
          w2\<lparr>db_ops := db_ops w + 2,
             db := Some (docs(new_id w \<mapsto>
                 dict_merge (Evaluation_model_dump (agent_card_url req) (chat_url req) ''running'')
                   [(''status'', PStr ''completed''), (''metrics'', dummy_deepeval a ch),
                    (''html_report'', PStr html)]))\<rparr>)"
        using evaluate_completed [OF c f None, of repr] by blast
      then show ?thesis
        using report_ok_stored(3)
                [of html "agent_card_url req" "chat_url req" "dummy_deepeval a ch"]
          view_renderable_stored(3) [of "agent_card_url req" "chat_url req" a ch html]
        by auto
    next
      case (Some msg)
      show ?thesis
      proof (cases "db_fault w (db_ops w + 2)")
        case None
        show ?thesis
          using evaluate_persist_failed [OF c f Some None, of repr]
            report_ok_stored(2) [of "agent_card_url req" "chat_url req" msg]
            view_renderable_stored(2) [of "agent_card_url req" "chat_url req" msg]
          by auto
      next
        case s2: (Some msg2)
        show ?thesis
          using evaluate_persist_failed_unrecorded [OF c f Some s2, of repr] db2
            report_ok_stored(1) [of "agent_card_url req" "chat_url req" "''running''"]
            view_renderable_stored(1) [of "agent_card_url req" "chat_url req" "''running''"]
          by auto
      qed
    qed
  qed
qed

lemma reachable_stored:
  assumes "reachable w" and "db w = Some docs" and "docs oid = Some d"
  shows "report_ok d \<and> renderable (report_view d)"
  using assms
proof (induction arbitrary: docs oid d rule: reachable.induct)
  case (start w)
  then show ?case
    by simp
next
  case (evaluated w repr req)
  show ?case
  proof (cases "\<exists>ds. can_create ds w")
    case True
    then obtain ds where c: "can_create ds w"
      by blast
    obtain d' where d': "db (snd (evaluate repr req w)) = Some (ds(new_id w \<mapsto> d'))"
      "report_ok d'" "renderable (report_view d')"
      using evaluate_stored [OF c] by blast
    have w: "db w = Some ds"
      using c by (simp add: can_create_def)
    have docs: "docs = ds(new_id w \<mapsto> d')"
      using evaluated.prems(1) d'(1) by simp
    show ?thesis
    proof (cases "oid = new_id w")
      case True
      then have "d = d'"
        using evaluated.prems(2) docs by simp
      then show ?thesis
        using d' by simp
    next
      case False
      then have "ds oid = Some d"
        using evaluated.prems(2) docs by simp
      then show ?thesis
        using evaluated.IH [OF w] by blast
    qed
  next
    case False
    then have "db w = Some docs"
      using evaluate_not_created [of w repr req] evaluated.prems(1) by simp
    then show ?thesis
      using evaluated.IH evaluated.prems(2) by blast
  qed
next
  case (reported w repr evaluation_id)
  have "db w = Some docs"
    using reported.prems(1) get_evaluation_report_db [of repr evaluation_id w] by simp
  then show ?case
    using reported.IH reported.prems(2) by blast
qed

lemma reachable_reports_ok: "reachable w \<Longrightarrow> reports_ok w"
  using reachable_stored by (auto simp: reports_ok_def split: option.splits)

lemma evaluate_world_up:
  "\<exists>html. html \<noteq> []
     \<and> db (snd (evaluate no_repr example_req world_up))
         = Some (Map.empty(example_id \<mapsto>
             [(''agent_card_url'', PStr ''http://a/card''), (''chat_url'', PNone),
              (''status'', PStr ''completed''), (''metrics'', dummy_deepeval ''{}'' None),
              (''html_report'', PStr html), (''error'', PNone)]))
     \<and> db_fault (snd (evaluate no_repr example_req world_up)) = (\<lambda>n. None)"
proof -
  let ?w1 = "created example_req Map.empty world_up"
  have n: "net ?w1 (sent ?w1) (agent_card_url example_req) = Body ''{}''"
    by (simp add: created_def world_up_def)
  note f = fetch_inputs_first_try [OF n example_simps(2)]
  have u: "db_fault world_up (db_ops world_up + 1) = None"
    by (simp add: world_up_def)
  have fa: "db_fault ?w1 = (\<lambda>n. None)"
    by (simp add: created_def world_up_def)
  obtain html where h: "html \<noteq> []" and e: "evaluate no_repr example_req world_up =
     (Inr (PDict [(''id'', PStr (new_id world_up)), (''status'', PStr ''completed''),
                  (''metrics'', dummy_deepeval ''{}'' None)]),
      ?w1\<lparr>sent := sent ?w1 + 1,
           trace := trace ?w1 @ [Get (agent_card_url example_req) 10],
           db_ops := db_ops world_up + 2,
           db := Some (Map.empty(new_id world_up \<mapsto>
                 dict_merge (Evaluation_model_dump (agent_card_url example_req)
                               (chat_url example_req) ''running'')
                   [(''status'', PStr ''completed''), (''metrics'', dummy_deepeval ''{}'' None),
                    (''html_report'', PStr html)]))\<rparr>)"
    using evaluate_completed [OF can_create_examples(2) f u, of no_repr] by auto
  show ?thesis
    apply (rule exI [of _ html])
    unfolding e merge_completed
    using h by (simp add: example_simps new_id_examples fa)
qed

lemma evaluate_world_down:
  "db (snd (evaluate no_repr example_req world_down))
     = Some (Map.empty(example_id \<mapsto>
         Evaluation_model_dump ''http://a/card'' None ''failed''))
   \<and> db_fault (snd (evaluate no_repr example_req world_down)) = (\<lambda>n. None)"
proof -
  let ?w1 = "created example_req Map.empty world_down"
  have n1: "\<forall>j<3. net ?w1 (sent ?w1 + j) (agent_card_url example_req)
               = Failure ((\<lambda>j. ''timed out'') j)"
    by (simp add: created_def world_down_def)
  have u: "db_fault world_down (db_ops world_down + 1) = None"
    by (simp add: world_down_def)
  have fa: "db_fault ?w1 = (\<lambda>n. None)"
    by (simp add: created_def world_down_def)
  show ?thesis
    unfolding evaluate_fetch_failed [OF can_create_examples(1) fetch_inputs_exhausted [OF n1] u]
      merge_failed
    by (simp add: example_simps new_id_examples fa)
qed

text \<open>
  Claim C7. For every record the service has stored, \<open>GET /evaluations/{id}/report\<close>
  returns the cached \<open>html_report\<close> verbatim when it is set; otherwise it answers with
  the report that the reporter makes of the record's status, agent card URL, chat
  URL and metrics (an empty dictionary when the metrics are not set). In no case
  does the call change the collection. The records the service has stored are those
  of the worlds reached from an empty collection by calls of \<open>evaluate\<close> and of this
  endpoint.
\<close>

theorem get_evaluation_report_cached_or_rendered:
  "db (snd (get_evaluation_report repr evaluation_id w)) = db w
   \<and> (reachable w \<and> db w = Some docs \<and> ObjectId evaluation_id = Some oid
        \<and> db_fault w (db_ops w) = None \<and> docs oid = Some d \<longrightarrow>
      (is_set d ''html_report'' \<longrightarrow>
         (\<exists>s. map_of d ''html_report'' = Some (PStr s)
            \<and> get_evaluation_report repr evaluation_id w
                = (Inr (HTMLResponse s 200), w\<lparr>db_ops := db_ops w + 1\<rparr>)))
      \<and> (\<not> is_set d ''html_report'' \<longrightarrow>
         (\<exists>html. render_html_report repr (report_view d) = Inr html
            \<and> get_evaluation_report repr evaluation_id w
                = (Inr (HTMLResponse html 200), w\<lparr>db_ops := db_ops w + 1\<rparr>))))"
proof (intro conjI impI)
  show "db (snd (get_evaluation_report repr evaluation_id w)) = db w"
    by (rule get_evaluation_report_db)
next
  assume h: "reachable w \<and> db w = Some docs \<and> ObjectId evaluation_id = Some oid
        \<and> db_fault w (db_ops w) = None \<and> docs oid = Some d"
    and c: "is_set d ''html_report''"
  from h have f: "db w = Some docs" "ObjectId evaluation_id = Some oid"
    "db_fault w (db_ops w) = None" "docs oid = Some d" and r: "reachable w" by simp_all
  have ok: "report_ok d"
    using reachable_stored [OF r f(1,4)] by simp
  obtain s where s: "map_of d ''html_report'' = Some (PStr s)" "s \<noteq> []"
    using c ok by (auto simp: is_set_def report_ok_def split: option.splits pyval.splits)
  have g: "dict_get d ''html_report'' = PStr s"
    using s(1) by (simp add: dict_get_def)
  have "get_evaluation_report repr evaluation_id w
          = (Inr (HTMLResponse s 200), w\<lparr>db_ops := db_ops w + 1\<rparr>)"
    using s(2) by (simp add: get_evaluation_report_found [OF f] g html_response_def)
  then show "\<exists>s. map_of d ''html_report'' = Some (PStr s)
            \<and> get_evaluation_report repr evaluation_id w
                = (Inr (HTMLResponse s 200), w\<lparr>db_ops := db_ops w + 1\<rparr>)"
    using s(1) by blast
next
  assume h: "reachable w \<and> db w = Some docs \<and> ObjectId evaluation_id = Some oid
        \<and> db_fault w (db_ops w) = None \<and> docs oid = Some d"
    and c: "\<not> is_set d ''html_report''"
  from h have f: "db w = Some docs" "ObjectId evaluation_id = Some oid"
    "db_fault w (db_ops w) = None" "docs oid = Some d" and r: "reachable w" by simp_all
  have "renderable (report_view d)"
    using reachable_stored [OF r f(1,4)] by simp
  then obtain html where html: "render_html_report repr (report_view d) = Inr html"
    using render_html_report_renderable by blast
  have g: "dict_get d ''html_report'' = PNone"
    using c by (auto simp: is_set_def dict_get_def split: option.splits pyval.splits)
  have "get_evaluation_report repr evaluation_id w
          = (Inr (HTMLResponse html 200), w\<lparr>db_ops := db_ops w + 1\<rparr>)"
    by (simp add: get_evaluation_report_found [OF f] g html)
  then show "\<exists>html. render_html_report repr (report_view d) = Inr html
            \<and> get_evaluation_report repr evaluation_id w
                = (Inr (HTMLResponse html 200), w\<lparr>db_ops := db_ops w + 1\<rparr>)"
    using html by blast
qed

theorem get_evaluation_report_cached_or_rendered_witness:
  "reachable (snd (evaluate no_repr example_req world_up))
   \<and> (\<exists>s. get_evaluation_report no_repr example_id (snd (evaluate no_repr example_req world_up))
           = (Inr (HTMLResponse s 200),
              (snd (evaluate no_repr example_req world_up))
                \<lparr>db_ops := db_ops (snd (evaluate no_repr example_req world_up)) + 1\<rparr>))
   \<and> reachable (snd (evaluate no_repr example_req world_down))
   \<and> (\<exists>html. render_html_report no_repr
                (report_view (Evaluation_model_dump ''http://a/card'' None ''failed''))
              = Inr html
         \<and> get_evaluation_report no_repr example_id
              (snd (evaluate no_repr example_req world_down))
           = (Inr (HTMLResponse html 200),
              (snd (evaluate no_repr example_req world_down))
                \<lparr>db_ops := db_ops (snd (evaluate no_repr example_req world_down)) + 1\<rparr>))
   \<and> db (snd (get_evaluation_report no_repr example_id
               (snd (evaluate no_repr example_req world_down))))
     = db (snd (evaluate no_repr example_req world_down))"
proof -
  let ?wc = "snd (evaluate no_repr example_req world_up)"
  let ?wf = "snd (evaluate no_repr example_req world_down)"
  let ?df = "Evaluation_model_dump ''http://a/card'' None ''failed''"
  have rc: "reachable ?wc"
    by (rule reachable.evaluated, rule reachable.start) (simp add: world_up_def)
  have rf: "reachable ?wf"
    by (rule reachable.evaluated, rule reachable.start) (simp add: world_down_def)
  obtain html where dc: "db ?wc
         = Some (Map.empty(example_id \<mapsto>
             [(''agent_card_url'', PStr ''http://a/card''), (''chat_url'', PNone),
              (''status'', PStr ''completed''), (''metrics'', dummy_deepeval ''{}'' None),
              (''html_report'', PStr html), (''error'', PNone)]))"
    and fc: "db_fault ?wc = (\<lambda>n. None)"
    using evaluate_world_up by blast
  let ?dc = "[(''agent_card_url'', PStr ''http://a/card''), (''chat_url'', PNone),
              (''status'', PStr ''completed''), (''metrics'', dummy_deepeval ''{}'' None),
              (''html_report'', PStr html), (''error'', PNone)]"
  have a: "reachable ?wc \<and> db ?wc = Some (Map.empty(example_id \<mapsto> ?dc))
      \<and> ObjectId example_id = Some example_id
      \<and> db_fault ?wc (db_ops ?wc) = None
      \<and> (Map.empty(example_id \<mapsto> ?dc)) example_id = Some ?dc"
    using rc dc by (simp add: fc ObjectId_example)
  have a': "is_set ?dc ''html_report''"
    by (simp add: is_set_def)
  have b: "reachable ?wf \<and> db ?wf = Some (Map.empty(example_id \<mapsto> ?df))
      \<and> ObjectId example_id = Some example_id
      \<and> db_fault ?wf (db_ops ?wf) = None
      \<and> (Map.empty(example_id \<mapsto> ?df)) example_id = Some ?df"
    using rf evaluate_world_down by (simp add: ObjectId_example)
  have b': "\<not> is_set ?df ''html_report''"
    by (simp add: is_set_def Evaluation_model_dump_def)
  note t1 = get_evaluation_report_cached_or_rendered
    [where w = ?wc and evaluation_id = example_id and oid = example_id
       and docs = "Map.empty(example_id \<mapsto> ?dc)" and d = ?dc and repr = no_repr]
  note t2 = get_evaluation_report_cached_or_rendered
    [where w = ?wf and evaluation_id = example_id and oid = example_id
       and docs = "Map.empty(example_id \<mapsto> ?df)" and d = ?df and repr = no_repr]
  show ?thesis
    using rc rf
      t1 [THEN conjunct2, THEN mp, OF a, THEN conjunct1, THEN mp, OF a']
      t2 [THEN conjunct2, THEN mp, OF b, THEN conjunct2, THEN mp, OF b']
      t2 [THEN conjunct1]
    by blast
qed








end
